theory Spec2Isabelle
  imports Main
begin

section \<open>Python string primitives used by util.py\<close>

text \<open>
  A \<open>str\<close> is a HOL string, its characters read as the code points U+0000 to U+00FF;
  among these the class \<open>\d\<close> and the digits of \<open>int()\<close> are \<open>0\<close> to \<open>9\<close>.
  Text with a code point beyond U+00FF is outside the model.
\<close>

definition isdigit :: "char \<Rightarrow> bool" where
  "isdigit c = (c \<in> set ''0123456789'')"

text \<open>
  \<open>str.isspace\<close> on the code points up to U+00FF: the ASCII white space, the four
  separators U+001C to U+001F, NEL (U+0085) and the no-break space (U+00A0).
\<close>

definition isspace :: "char \<Rightarrow> bool" where
  "isspace c = (c \<in> set [CHR '' '', CHR 0x09, CHR 0x0A, CHR 0x0B, CHR 0x0C, CHR 0x0D,
                           CHR 0x1C, CHR 0x1D, CHR 0x1E, CHR 0x1F, CHR 0x85, CHR 0xA0])"

definition digit_val :: "char \<Rightarrow> int" where
  "digit_val c = int (of_char c) - 48"

text \<open>\<open>int(value)\<close> on a run of decimal digits.\<close>

definition int_of_digits :: "string \<Rightarrow> int" where
  "int_of_digits ds = foldl (\<lambda>a c. 10 * a + digit_val c) 0 ds"

text \<open>\<open>s.startswith(p)\<close>.\<close>

fun startswith :: "string \<Rightarrow> string \<Rightarrow> bool" where
  "startswith s [] = True"
| "startswith [] (p # ps) = False"
| "startswith (c # cs) (p # ps) = (c = p \<and> startswith cs ps)"

text \<open>
  The first occurrence of a separator: the text before it and the text after it.
\<close>

fun find_sep :: "string \<Rightarrow> string \<Rightarrow> (string \<times> string) option" where
  "find_sep sep [] = (if sep = [] then Some ([], []) else None)"
| "find_sep sep (c # cs) =
     (if startswith (c # cs) sep then Some ([], drop (length sep) (c # cs))
      else (case find_sep sep cs of None \<Rightarrow> None | Some (a, b) \<Rightarrow> Some (c # a, b)))"

text \<open>
  \<open>s.split(sep, maxsplit)\<close> for a non-empty separator (every call in util.py passes a
  non-empty literal): at most \<open>maxsplit\<close> cuts, scanning from the left.
\<close>

fun split_max :: "string \<Rightarrow> nat \<Rightarrow> string \<Rightarrow> string list" where
  "split_max sep 0 s = [s]"
| "split_max sep (Suc n) s =
     (case find_sep sep s of None \<Rightarrow> [s] | Some (a, b) \<Rightarrow> a # split_max sep n b)"

text \<open>
  \<open>s.split(sep)\<close>: every cut consumes at least one character, so \<open>length s\<close> cuts
  are as good as unboundedly many (lemma \<open>split_max_enough\<close> below).
\<close>

definition split :: "string \<Rightarrow> string \<Rightarrow> string list" where
  "split sep s = split_max sep (length s) s"

text \<open>\<open>sep.join(xs)\<close>.\<close>

fun join :: "string \<Rightarrow> string list \<Rightarrow> string" where
  "join sep [] = []"
| "join sep [x] = x"
| "join sep (x # y # ys) = x @ sep @ join sep (y # ys)"

text \<open>\<open>s.strip()\<close>.\<close>

definition strip :: "string \<Rightarrow> string" where
  "strip s = rev (dropWhile isspace (rev (dropWhile isspace s)))"

text \<open>\<open>sub in s\<close> on strings: \<open>sub\<close> occurs as a contiguous piece of \<open>s\<close>.\<close>

fun contains :: "string \<Rightarrow> string \<Rightarrow> bool" where
  "contains [] sub = (sub = [])"
| "contains (c # cs) sub = (startswith (c # cs) sub \<or> contains cs sub)"

section \<open>Versions\<close>

text \<open>A dict with the keys \<open>'major'\<close> and \<open>'minor'\<close>; \<open>None\<close> is \<open>None\<close>.\<close>

record version =
  major :: "int option"
  minor :: "int option"

text \<open>
  \<open>VERSION_RE = (?P<major>\d+)(?:\.(?P<minor>\d+))?\<close>, matched at the start of the
  string. \<open>\d+\<close> is greedy and the optional group never forces it to give a digit back,
  so the major group is the longest leading run of digits; the minor group takes part
  only when a dot and at least one digit follow. The result is the pair of the groups'
  texts, \<open>None\<close> for a group that did not take part; no match at all is \<open>None\<close>.
\<close>

definition VERSION_RE_match :: "string \<Rightarrow> (string \<times> string option) option" where
  "VERSION_RE_match s =
     (let ds = takeWhile isdigit s; rest = dropWhile isdigit s in
      if ds = [] then None
      else (case rest of
              c # r \<Rightarrow>
                (if c = CHR ''.'' \<and> takeWhile isdigit r \<noteq> []
                 then Some (ds, Some (takeWhile isdigit r))
                 else Some (ds, None))
            | [] \<Rightarrow> Some (ds, None)))"

definition extract_major_minor_version :: "string \<Rightarrow> version" where
  "extract_major_minor_version version =
     (case VERSION_RE_match version of
        Some (ma, mi) \<Rightarrow> \<lparr>major = Some (int_of_digits ma), minor = map_option int_of_digits mi\<rparr>
      | None \<Rightarrow> \<lparr>major = None, minor = None\<rparr>)"

definition version_fulfills_request :: "version \<Rightarrow> version \<Rightarrow> bool" where
  "version_fulfills_request available_version requested_version =
     (if major requested_version = None then True
      else if major requested_version \<noteq> major available_version then False
      else if minor requested_version = None then True
      else (case (minor available_version, minor requested_version) of
              (Some a, Some r) \<Rightarrow> a \<ge> r
            | _ \<Rightarrow> False))"

section \<open>Interpreter resolution\<close>

text \<open>
  What the resolver asks of the machine it runs on. The search of \<open>PATH\<close>
  (\<open>find_executable\<close>), the file tests and the \<open>-V\<close> run of an interpreter are
  taken as given functions of the host: the resolver's own logic is what is modelled. The
  \<open>lru_cache\<close> decorators do not change a result computed from these functions.
\<close>

datatype error = IndexError | KeyError | AttributeError | OSError | UnicodeDecodeError

record host =
  platform :: string
    \<comment> \<open>\<open>sublime.platform()\<close>: \<open>'osx'\<close>, \<open>'linux'\<close> or \<open>'windows'\<close>\<close>
  sys_version_info :: "int \<times> int"
    \<comment> \<open>\<open>sys.version_info.major\<close>, \<open>sys.version_info.minor\<close>\<close>
  find_executable :: "string \<Rightarrow> string option"
    \<comment> \<open>the outcome of \<open>find_executable(name)\<close>\<close>
  communicate_V :: "string \<Rightarrow> error + string"
    \<comment> \<open>\<open>communicate((path, '-V'), '', output_stream=STREAM_BOTH)\<close>\<close>
  glob_python :: "string list"
    \<comment> \<open>\<open>glob(prefix + '*')\<close> for \<open>prefix = os.path.abspath('\\Python')\<close>\<close>
  python_prefix :: string
  can_exec :: "string \<Rightarrow> bool"
  path_exists :: "string \<Rightarrow> bool"
  ntpath_join :: "string \<Rightarrow> string \<Rightarrow> string"
  ntpath_dirname :: "string \<Rightarrow> string"

text \<open>Truth value of \<open>None\<close> or a string: \<open>None\<close> and \<open>''\<close> are false.\<close>

fun truthy :: "string option \<Rightarrow> bool" where
  "truthy None = False"
| "truthy (Some s) = (s \<noteq> [])"

text \<open>
  What a lookup of a companion script can be: \<open>None\<close>, a path, or (when the name has
  the form \<open>script@python\<close>) the first two components of a nested \<open>find_python\<close>
  result.
\<close>

datatype found = Nothing | Found string | Tuple "string option" found

fun of_option :: "string option \<Rightarrow> found" where
  "of_option None = Nothing"
| "of_option (Some p) = Found p"

text \<open>
  \<open>PYTHON_CMD_RE = (?P<script>[^@]+)?@python(?P<version>[\d\.]+)?\<close>, matched at
  the start: the groups \<open>script\<close> and \<open>version\<close>, each \<open>None\<close> when it did not
  take part.
\<close>

definition PYTHON_CMD_RE_match :: "string \<Rightarrow> (string option \<times> string option) option" where
  "PYTHON_CMD_RE_match cmd =
     (let script = takeWhile (\<lambda>c. c \<noteq> CHR ''@'') cmd;
          rest = dropWhile (\<lambda>c. c \<noteq> CHR ''@'') cmd in
      if startswith rest ''@python'' then
        (let version = takeWhile (\<lambda>c. isdigit c \<or> c = CHR ''.'') (drop 7 rest) in
         Some (if script = [] then None else Some script,
               if version = [] then None else Some version))
      else None)"

definition get_python_version :: "host \<Rightarrow> string \<Rightarrow> version" where
  "get_python_version h path =
     (case communicate_V h path of
        Inl ex \<Rightarrow> \<lparr>major = None, minor = None\<rparr>
      | Inr output \<Rightarrow>
          (case split '' '' output of
             _ # v # _ \<Rightarrow> extract_major_minor_version v
           | _ \<Rightarrow> \<lparr>major = None, minor = None\<rparr>))"

definition find_posix_python :: "host \<Rightarrow> string \<Rightarrow> string option" where
  "find_posix_python h version =
     (if version \<noteq> [] then
        (let path = find_executable h (''python'' @ version) in
         if \<not> truthy path then
           (let path = find_executable h (''python'' @ [hd version]) in
            if \<not> truthy path then find_executable h ''python'' else path)
         else path)
      else find_executable h ''python'')"

text \<open>The inner loop of \<open>find_windows_python\<close> over the installation directories.\<close>

fun python_dir_loop :: "host \<Rightarrow> string \<Rightarrow> string list \<Rightarrow> string option" where
  "python_dir_loop h version [] = None"
| "python_dir_loop h version (python_dir # dirs) =
     (let path = ntpath_join h python_dir ''python.exe'';
          python_version = drop (length (python_prefix h)) python_dir in
      if startswith python_version version \<and> can_exec h path then Some path
      else python_dir_loop h version dirs)"

definition find_windows_python :: "host \<Rightarrow> string \<Rightarrow> error + string option" where
  "find_windows_python h version =
     (if version \<noteq> [] then
        (let stripped_version = filter (\<lambda>c. c \<noteq> CHR ''.'') version in
         if stripped_version = [] then Inl IndexError
         else (case python_dir_loop h stripped_version (glob_python h) of
                 Some path \<Rightarrow> Inr (Some path)
               | None \<Rightarrow>
                   (case python_dir_loop h [hd stripped_version] (glob_python h) of
                      Some path \<Rightarrow> Inr (Some path)
                    | None \<Rightarrow> Inr (find_executable h ''python''))))
      else Inr (find_executable h ''python''))"

text \<open>Number of \<open>@\<close> in a command name: what decreases along the nested lookups.\<close>

definition ats :: "string \<Rightarrow> nat" where
  "ats s = length (filter (\<lambda>c. c = CHR ''@'') s)"

text \<open>
  \<open>find_python(version, script, module)\<close>, \<open>find_python_script\<close> and \<open>which\<close>
  call one another. \<open>module\<close> is the flag "module is not None". The result of
  \<open>find_python\<close> is the tuple \<open>(path, script_path, major, minor)\<close>.
\<close>

function find_python ::
    "host \<Rightarrow> string option \<Rightarrow> string option \<Rightarrow> bool \<Rightarrow>
       error + (string option \<times> found \<times> int option \<times> int option)"
  and find_python_script :: "host \<Rightarrow> string \<Rightarrow> string \<Rightarrow> error + found"
  and which :: "host \<Rightarrow> string \<Rightarrow> bool \<Rightarrow> error + found"
where
  "find_python h version script module =
     (let available_version =
            (if \<not> module then \<lparr>major = None, minor = None\<rparr>
             else \<lparr>major = Some (fst (sys_version_info h)),
                   minor = Some (snd (sys_version_info h))\<rparr>)
      in
      if version = None \<and> module then
        Inr (Some ''<builtin>'', of_option script,
             major available_version, minor available_version)
      else
        (let requested_version =
               (case version of
                  None \<Rightarrow> \<lparr>major = None, minor = None\<rparr>
                | Some v \<Rightarrow> extract_major_minor_version v);
             located =
               (case version of
                  None \<Rightarrow> Inr (find_executable h ''python'')
                | Some v \<Rightarrow>
                    (let need_system_python =
                           (if \<not> module then True
                            else \<not> version_fulfills_request available_version requested_version)
                     in
                     if need_system_python then
                       (if platform h \<in> {''osx'', ''linux''} then Inr (find_posix_python h v)
                        else find_windows_python h v)
                     else Inr (Some ''<builtin>'')))
         in
         case located of
           Inl ex \<Rightarrow> Inl ex
         | Inr path \<Rightarrow>
             (case path of
                Some p \<Rightarrow>
                  (if p \<noteq> [] \<and> p \<noteq> ''<builtin>'' then
                     (let available_version = get_python_version h p in
                      if version_fulfills_request available_version requested_version then
                        (case script of
                           Some s \<Rightarrow>
                             (if s \<noteq> [] then
                                (case find_python_script h p s of
                                   Inl ex \<Rightarrow> Inl ex
                                 | Inr script_path \<Rightarrow>
                                     Inr (if script_path = Nothing then None else path,
                                          script_path,
                                          major available_version, minor available_version))
                              else Inr (path, Nothing,
                                        major available_version, minor available_version))
                         | None \<Rightarrow> Inr (path, Nothing,
                                         major available_version, minor available_version))
                      else Inr (None, Nothing,
                                major available_version, minor available_version))
                   else Inr (path, Nothing,
                             major available_version, minor available_version))
              | None \<Rightarrow> Inr (path, Nothing,
                              major available_version, minor available_version))))"
| "find_python_script h python_path script =
     (if platform h \<in> {''osx'', ''linux''} then which h script False
      else
        (let script_path =
               ntpath_join h (ntpath_join h (ntpath_dirname h python_path) ''Scripts'')
                 (script @ ''-script.py'')
         in if path_exists h script_path then Inr (Found script_path) else Inr Nothing))"
| "which h cmd module =
     (case PYTHON_CMD_RE_match cmd of
        Some (script, version) \<Rightarrow>
          (case find_python h version script module of
             Inl ex \<Rightarrow> Inl ex
           | Inr (path, script_path, _, _) \<Rightarrow> Inr (Tuple path script_path))
      | None \<Rightarrow> Inr (of_option (find_executable h cmd)))"
  by pat_completeness auto

section \<open>Paths\<close>

text \<open>\<open>os.path.basename\<close> (posixpath): what follows the last slash.\<close>

definition basename :: "string \<Rightarrow> string" where
  "basename p = rev (takeWhile (\<lambda>c. c \<noteq> CHR ''/'') (rev p))"

text \<open>
  \<open>os.path.dirname\<close>: what precedes the last slash, with that slash; the trailing
  slashes are then dropped unless the head consists of slashes only.
\<close>

definition dirname :: "string \<Rightarrow> string" where
  "dirname p =
     (let head = rev (dropWhile (\<lambda>c. c \<noteq> CHR ''/'') (rev p)) in
      if head \<noteq> [] \<and> (\<exists>c \<in> set head. c \<noteq> CHR ''/'')
      then rev (dropWhile (\<lambda>c. c = CHR ''/'') (rev head))
      else head)"

text \<open>\<open>os.path.join(a, b)\<close>.\<close>

definition path_join :: "string \<Rightarrow> string \<Rightarrow> string" where
  "path_join a b =
     (if startswith b ''/'' then b
      else if a = [] \<or> last a = CHR ''/'' then a @ b
      else a @ ''/'' @ b)"

text \<open>
  A place on disk is the list of the components from the root to it. \<open>resolve\<close> is how
  the operating system reads a path name: an absolute name from the root, any other name
  from the working directory; empty components and \<open>.\<close> are passed over, and \<open>..\<close>
  steps to the parent (the root is its own parent). Symbolic links are not modelled.
\<close>

type_synonym place = "string list"

fun walk :: "place \<Rightarrow> string list \<Rightarrow> place" where
  "walk at [] = at"
| "walk at (c # cs) =
     (if c = [] \<or> c = ''.'' then walk at cs
      else if c = ''..'' then walk (butlast at) cs
      else walk (at @ [c]) cs)"

definition resolve :: "place \<Rightarrow> string \<Rightarrow> place" where
  "resolve dir name = walk (if startswith name ''/'' then [] else dir) (split ''/'' name)"

text \<open>A place is the directory \<open>d\<close> or lies below it.\<close>

definition beneath :: "place \<Rightarrow> place \<Rightarrow> bool" where
  "beneath d p = (take (length d) p = d)"

text \<open>
  The directories from below the root down to a place, the place last: the order in which
  \<open>os.makedirs\<close> makes those that are missing.
\<close>

definition lineage :: "place \<Rightarrow> place list" where
  "lineage p = [take i p. i \<leftarrow> [1 ..< Suc (length p)]]"

section \<open>Processes, environment and the file system\<close>

definition STREAM_STDOUT :: int where "STREAM_STDOUT = 1"
definition STREAM_STDERR :: int where "STREAM_STDERR = 2"
definition STREAM_BOTH :: int where "STREAM_BOTH = STREAM_STDOUT + STREAM_STDERR"

text \<open>
  The module does two things with a \<open>bytes\<close> object read from a child: it tests whether
  it is empty and it decodes it as UTF-8. So a \<open>bytes\<close> object is given by what decoding
  it yields: the text it encodes, or the failure of a byte sequence that is not valid
  UTF-8 (such a sequence is not empty). \<open>b''\<close> is \<open>Utf8 []\<close>. In the other direction,
  \<open>encode('utf8')\<close> never fails, and the bytes sent to a child are given by their text.
\<close>

datatype bytes = Utf8 string | NotUtf8

fun decode :: "bytes \<Rightarrow> error + string" where
  "decode (Utf8 text) = Inr text"
| "decode NotUtf8 = Inl UnicodeDecodeError"

fun nonempty :: "bytes \<Rightarrow> bool" where
  "nonempty (Utf8 text) = (text \<noteq> [])"
| "nonempty NotUtf8 = True"

text \<open>
  A started child process: what \<open>communicate(input)\<close> yields from it (an exception, or
  the bytes it writes to standard output and standard error), and whether it ends within
  the ten seconds \<open>run_shell_cmd\<close> allows. What a child does to the file system is
  not modelled.
\<close>

record child =
  answer :: "string \<Rightarrow> error + (bytes \<times> bytes)"
  in_time :: bool

text \<open>The \<open>Popen\<close> object: the child and which of its streams are pipes.\<close>

record popen_obj =
  child_of :: child
  stdout_piped :: bool
  stderr_piped :: bool

text \<open>
  What the operating system answers, as fixed functions. \<open>Popen\<close> takes the command, the
  environment and the working directory the child inherits, and is \<open>None\<close> when
  \<open>subprocess.Popen\<close> raises an \<open>Exception\<close>; \<open>NamedTemporaryFile\<close> and
  \<open>mkdtemp\<close> give the new name, or \<open>None\<close> when they raise; \<open>write_ok\<close>,
  \<open>copy_ok\<close>, \<open>mkdir_ok\<close> and \<open>chdir_ok\<close> say whether writing a file, copying
  one to another place, making one directory and entering one succeed (they raise
  otherwise); \<open>undeletable\<close> holds of a place whose removal the operating system
  refuses.
\<close>

record system =
  os_name :: string
  pathsep :: string
  pandoc_path :: "string option"
    \<comment> \<open>\<open>sublime.load_settings(...).get("pandoc_path", None)\<close>\<close>
  Popen :: "string list \<Rightarrow> (string \<rightharpoonup> string) \<Rightarrow> place \<Rightarrow> child option"
  NamedTemporaryFile :: "string \<Rightarrow> string option"
  mkdtemp :: "string option"
  write_ok :: "place \<Rightarrow> bool"
  copy_ok :: "place \<Rightarrow> place \<Rightarrow> bool"
  mkdir_ok :: "place \<Rightarrow> bool"
  chdir_ok :: "place \<Rightarrow> bool"
  undeletable :: "place \<Rightarrow> bool"

text \<open>
  The state the module reads and writes: \<open>os.environ\<close>, the dict object held by the
  \<open>lru_cache\<close> of \<open>create_environment\<close> (\<open>None\<close> before the first call), the
  messages shown with \<open>sublime.error_message\<close>, the places that exist on disk, the
  working directory, and the names \<open>os.remove\<close> was called with.
\<close>

record world =
  environ :: "string \<rightharpoonup> string"
  environment_cache :: "(string \<rightharpoonup> string) option"
  messages :: "string list"
  paths :: "place set"
  cwd :: place
  remove_calls :: "string list"

text \<open>
  The \<open>env\<close> argument of \<open>popen\<close>: \<open>None\<close>, the object \<open>os.environ\<close> itself
  (what \<open>run_shell_cmd\<close> passes), or some other dict.
\<close>

datatype env_arg = EnvNone | OsEnviron | Dict "string \<rightharpoonup> string"

text \<open>\<open>proc.communicate(input)\<close>: a stream that is not a pipe yields \<open>None\<close>.\<close>

definition communicate_proc ::
    "popen_obj \<Rightarrow> string \<Rightarrow> error + (bytes option \<times> bytes option)" where
  "communicate_proc proc input =
     (case answer (child_of proc) input of
        Inl ex \<Rightarrow> Inl ex
      | Inr (out, err) \<Rightarrow>
          Inr (if stdout_piped proc then Some out else None,
               if stderr_piped proc then Some err else None))"

text \<open>
  \<open>ANSI_COLOR_RE = \033\[[0-9;]*m\<close> at the start of a string: the text after the
  match.
\<close>

definition ANSI_COLOR_RE_match :: "string \<Rightarrow> string option" where
  "ANSI_COLOR_RE_match s =
     (if startswith s [CHR 0x1B, CHR ''[''] then
        (case dropWhile (\<lambda>c. isdigit c \<or> c = CHR '';'') (drop 2 s) of
           c # t \<Rightarrow> if c = CHR ''m'' then Some t else None
         | [] \<Rightarrow> None)
      else None)"

text \<open>\<open>ANSI_COLOR_RE.sub('', output)\<close>.\<close>

function ANSI_COLOR_RE_sub :: "string \<Rightarrow> string" where
  "ANSI_COLOR_RE_sub s =
     (case ANSI_COLOR_RE_match s of
        Some t \<Rightarrow> ANSI_COLOR_RE_sub t
      | None \<Rightarrow> (case s of [] \<Rightarrow> [] | c # cs \<Rightarrow> c # ANSI_COLOR_RE_sub cs))"
  by pat_completeness auto

text \<open>
  One item of \<open>combine_output\<close>: \<open>(out[i].decode('utf8') or '') if out[i] else ''\<close>.
\<close>

fun decoded :: "bytes option \<Rightarrow> error + string" where
  "decoded None = Inr []"
| "decoded (Some b) = (if nonempty b then decode b else Inr [])"

text \<open>
  \<open>combine_output(out, sep)\<close>: the two items are decoded in turn, so the first one that
  is not valid UTF-8 raises \<open>UnicodeDecodeError\<close>.
\<close>

definition combine_output :: "bytes option \<times> bytes option \<Rightarrow> string \<Rightarrow> error + string" where
  "combine_output out sep =
     (case decoded (fst out) of
        Inl ex \<Rightarrow> Inl ex
      | Inr a \<Rightarrow>
          (case decoded (snd out) of
             Inl ex \<Rightarrow> Inl ex
           | Inr b \<Rightarrow> Inr (ANSI_COLOR_RE_sub (join sep [a, b]))))"

definition error_text :: string where
  "error_text =
     ''SublimeLinter could not determine your shell PATH. '' @
     ''It is unlikely that any linters will work. '' @
     [CHR 0x0A, CHR 0x0A] @
     ''Please see the troubleshooting guide for info on how to debug PATH problems.''"

definition bash_cmd :: string where
  "bash_cmd = ''echo '' @ [CHR 0x22] @ ''__SUBL_PATH__${PATH}__SUBL_PATH__'' @ [CHR 0x22]"

definition fish_cmd :: string where
  "fish_cmd =
     ''echo '' @ [CHR 0x22] @ ''__SUBL_PATH__'' @ [CHR 0x22] @
     ''; for p in $PATH; echo $p; end; echo '' @ [CHR 0x22] @ ''__SUBL_PATH__'' @ [CHR 0x22]"

text \<open>The loop of \<open>get_shell_path\<close> that appends the common directories.\<close>

fun guess_path :: "string list \<Rightarrow> string \<Rightarrow> string list \<Rightarrow> string" where
  "guess_path splt p [] = p"
| "guess_path splt p (path # others) =
     guess_path splt (if path \<notin> set splt then p @ '':'' @ path else p) others"

text \<open>
  \<open>popen\<close>, \<open>run_shell_cmd\<close>, \<open>extract_path\<close>, \<open>get_shell_path\<close> and
  \<open>create_environment\<close> call one another; each takes the world and returns it with its
  result. \<open>env.update(extra_env)\<close> changes the dict object \<open>env\<close> refers to: the cached
  one when \<open>env\<close> was \<open>None\<close>, \<open>os.environ\<close> when that was passed. The child is
  started in the working directory of the moment. The start-up information \<open>popen\<close>
  builds on Windows has no part in its result. In \<open>create_environment\<close> the variable
  \<open>paths\<close> is the empty dict, so the block that prepends the configured paths never runs
  and has no counterpart here. \<open>run_shell_cmd\<close> calls \<open>communicate\<close> on what \<open>popen\<close>
  returns without looking at it, which raises \<open>AttributeError\<close> on \<open>None\<close>; on a
  timeout its output is \<open>b''\<close>.
\<close>

function popen ::
    "system \<Rightarrow> world \<Rightarrow> string list \<Rightarrow> int \<Rightarrow> env_arg \<Rightarrow> (string \<rightharpoonup> string) option \<Rightarrow>
       (error + popen_obj option) \<times> world"
  and run_shell_cmd :: "system \<Rightarrow> world \<Rightarrow> string list \<Rightarrow> (error + bytes option) \<times> world"
  and extract_path :: "system \<Rightarrow> world \<Rightarrow> string list \<Rightarrow> string \<Rightarrow> (error + string) \<times> world"
  and get_shell_path :: "system \<Rightarrow> world \<Rightarrow> (string \<rightharpoonup> string) \<Rightarrow> (error + string) \<times> world"
  and create_environment :: "system \<Rightarrow> world \<Rightarrow> (error + (string \<rightharpoonup> string)) \<times> world"
where
  "popen sys w cmd output_stream env extra_env =
     (let (stdout, stderr) =
            (if output_stream = STREAM_BOTH then (True, True)
             else if output_stream = STREAM_STDOUT then (True, False)
             else (False, True));
          start = (\<lambda>e dir. map_option
                     (\<lambda>c. \<lparr>child_of = c, stdout_piped = stdout, stderr_piped = stderr\<rparr>)
                     (Popen sys cmd e dir))
      in
      case env of
        EnvNone \<Rightarrow>
          (case create_environment sys w of
             (Inl ex, w') \<Rightarrow> (Inl ex, w')
           | (Inr e, w') \<Rightarrow>
               (case extra_env of
                  None \<Rightarrow> (Inr (start e (cwd w')), w')
                | Some x \<Rightarrow>
                    (Inr (start (e ++ x) (cwd w')), w'\<lparr>environment_cache := Some (e ++ x)\<rparr>)))
      | OsEnviron \<Rightarrow>
          (case extra_env of
             None \<Rightarrow> (Inr (start (environ w) (cwd w)), w)
           | Some x \<Rightarrow> (Inr (start (environ w ++ x) (cwd w)), w\<lparr>environ := environ w ++ x\<rparr>))
      | Dict e \<Rightarrow>
          (case extra_env of
             None \<Rightarrow> (Inr (start e (cwd w)), w)
           | Some x \<Rightarrow> (Inr (start (e ++ x) (cwd w)), w)))"
| "run_shell_cmd sys w cmd =
     (case popen sys w cmd STREAM_BOTH OsEnviron None of
        (Inl ex, w') \<Rightarrow> (Inl ex, w')
      | (Inr None, w') \<Rightarrow> (Inl AttributeError, w')
      | (Inr (Some proc), w') \<Rightarrow>
          (if in_time (child_of proc) then
             (case communicate_proc proc [] of
                Inl ex \<Rightarrow> (Inl ex, w')
              | Inr (out, err) \<Rightarrow> (Inr out, w'))
           else (Inr (Some (Utf8 [])), w')))"
| "extract_path sys w cmd delim =
     (case run_shell_cmd sys w cmd of
        (Inl ex, w') \<Rightarrow> (Inl ex, w')
      | (Inr None, w') \<Rightarrow> (Inl AttributeError, w')
      | (Inr (Some b), w') \<Rightarrow>
          (case decode b of
             Inl ex \<Rightarrow> (Inl ex, w')
           | Inr out \<Rightarrow>
               (let path = split_max ''__SUBL_PATH__'' 2 out in
                if length path > 1
                then (Inr (join '':'' (split delim (strip (path ! 1)))), w')
                else (Inr [], w'\<lparr>messages := messages w' @ [error_text]\<rparr>))))"
| "get_shell_path sys w env =
     (let guess =
            (case env ''PATH'' of
               None \<Rightarrow> (Inl KeyError, w)
             | Some p \<Rightarrow>
                 (Inr (guess_path (split '':'' p) p
                         [''/usr/bin'', ''/usr/local/bin'',
                          ''/usr/local/php/bin'', ''/usr/local/php5/bin'']), w))
      in
      case env ''SHELL'' of
        Some shell_path \<Rightarrow>
          (let shell = basename shell_path in
           if shell \<in> {''bash'', ''zsh''} then
             extract_path sys w [shell_path, ''-l'', ''-c'', bash_cmd] '':''
           else if shell = ''fish'' then
             extract_path sys w [shell_path, ''-l'', ''-c'', fish_cmd] [CHR 0x0A]
           else guess)
      | None \<Rightarrow> guess)"
| "create_environment sys w =
     (case environment_cache w of
        Some e \<Rightarrow> (Inr e, w)
      | None \<Rightarrow>
          (case (if os_name sys = ''posix'' then
                   (case get_shell_path sys w (environ w) of
                      (Inl ex, w') \<Rightarrow> (Inl ex, w')
                    | (Inr p, w') \<Rightarrow> (Inr ((environ w)(''PATH'' \<mapsto> p)), w'))
                 else (Inr (environ w), w)) of
             (Inl ex, w') \<Rightarrow> (Inl ex, w')
           | (Inr env, w') \<Rightarrow>
               (case (case pandoc_path sys of
                        Some pandoc \<Rightarrow>
                          (if pandoc \<noteq> [] then
                             (case env ''PATH'' of
                                None \<Rightarrow> Inl KeyError
                              | Some p \<Rightarrow> Inr (env(''PATH'' \<mapsto> pandoc @ pathsep sys @ p)))
                           else Inr env)
                      | None \<Rightarrow> Inr env) of
                  Inl ex \<Rightarrow> (Inl ex, w')
                | Inr env \<Rightarrow>
                    (let env = env(''PYTHONIOENCODING'' \<mapsto> ''utf8'') in
                     (Inr env, w'\<lparr>environment_cache := Some env\<rparr>)))))"
  by pat_completeness auto

definition communicate ::
    "system \<Rightarrow> world \<Rightarrow> string list \<Rightarrow> string \<Rightarrow> int \<Rightarrow> (string \<rightharpoonup> string) option \<Rightarrow>
       (error + string) \<times> world" where
  "communicate sys w cmd code output_stream env =
     (case popen sys w cmd output_stream EnvNone env of
        (Inl ex, w') \<Rightarrow> (Inl ex, w')
      | (Inr None, w') \<Rightarrow> (Inr [], w')
      | (Inr (Some out), w') \<Rightarrow>
          (case communicate_proc out code of
             Inl ex \<Rightarrow> (Inl ex, w')
           | Inr out \<Rightarrow> (combine_output out [], w')))"

section \<open>Execution in a temporary file or directory\<close>



text \<open>
  \<open>os.makedirs\<close> makes the missing directories of a lineage from the top down and stops
  at the first it cannot make. It raises \<open>OSError\<close> then, and also when the last one
  exists already; \<open>tmpdir\<close> passes over both, so only the directories made count.
\<close>

fun makedirs :: "system \<Rightarrow> place list \<Rightarrow> place set \<Rightarrow> place set" where
  "makedirs sys [] disk = disk"
| "makedirs sys (q # qs) disk =
     (if q \<in> disk then makedirs sys qs disk
      else if mkdir_ok sys q then makedirs sys qs (insert q disk)
      else disk)"

text \<open>
  The loop of \<open>tmpdir\<close> over \<open>files\<close>: the file named \<open>filename\<close> is written from the
  buffer, every other file is copied (\<open>shutil.copyfile\<close> raises when source and target
  are the same file). The first exception ends the loop.
\<close>

fun mirror :: "system \<Rightarrow> string \<Rightarrow> string \<Rightarrow> string list \<Rightarrow> world \<Rightarrow> error option \<times> world" where
  "mirror sys d filename [] w = (None, w)"
| "mirror sys d filename (f # files) w =
     (let w1 = w\<lparr>paths := makedirs sys (lineage (resolve (cwd w) (path_join d (dirname f))))
                              (paths w)\<rparr>;
          target = path_join d f
      in
      if basename target = filename then
        (if write_ok sys (resolve (cwd w) target)
         then mirror sys d filename files
                (w1\<lparr>paths := insert (resolve (cwd w) target) (paths w1)\<rparr>)
         else (Some OSError, w1))
      else
        (if resolve (cwd w) f \<noteq> resolve (cwd w) target
            \<and> copy_ok sys (resolve (cwd w) f) (resolve (cwd w) target)
         then mirror sys d filename files
                (w1\<lparr>paths := insert (resolve (cwd w) target) (paths w1)\<rparr>)
         else (Some OSError, w1)))"

text \<open>
  \<open>shutil.rmtree(d, True)\<close>: errors are ignored, so a place whose removal is refused
  stays, and with it the directories that lead to it.
\<close>

definition rmtree :: "system \<Rightarrow> place \<Rightarrow> world \<Rightarrow> world" where
  "rmtree sys d w =
     w\<lparr>paths := Set.filter
                   (\<lambda>p. \<not> beneath d p \<or> (\<exists>q \<in> paths w. beneath p q \<and> undeletable sys q))
                   (paths w)\<rparr>"

text \<open>The filter of \<open>tmpdir\<close> on the lines of the combined output.\<close>

definition filter_lines :: "string \<Rightarrow> string list \<Rightarrow> string list" where
  "filter_lines filename lines =
     [line \<leftarrow> lines. contains (split_max '':'' 1 line ! 0) filename]"

text \<open>
  \<open>tmpdir\<close>: every name is read from the working directory of the moment, so
  \<open>shutil.rmtree(d, True)\<close> in the \<open>finally\<close> clause reads \<open>d\<close> after \<open>os.chdir(d)\<close>.
\<close>

definition tmpdir ::
    "system \<Rightarrow> world \<Rightarrow> string list \<Rightarrow> string list \<Rightarrow> string \<Rightarrow> string \<Rightarrow> int \<Rightarrow>
       (string \<rightharpoonup> string) option \<Rightarrow> (error + string) \<times> world" where
  "tmpdir sys w cmd files filename code output_stream env =
     (let filename = basename filename in
      case mkdtemp sys of
        None \<Rightarrow> (Inl OSError, w)
      | Some d \<Rightarrow>
          (let w1 = w\<lparr>paths := insert (resolve (cwd w) d) (paths w)\<rparr>;
               (res, w2) =
                 (case mirror sys d filename files w1 of
                    (Some ex, w') \<Rightarrow> (Inl ex, w')
                  | (None, w') \<Rightarrow>
                      (if \<not> chdir_ok sys (resolve (cwd w') d) then (Inl OSError, w')
                       else
                         (case popen sys (w'\<lparr>cwd := resolve (cwd w') d\<rparr>) cmd output_stream
                                 EnvNone env of
                            (Inl ex, w'') \<Rightarrow> (Inl ex, w'')
                          | (Inr None, w'') \<Rightarrow> (Inr [], w'')
                          | (Inr (Some out), w'') \<Rightarrow>
                              (case communicate_proc out [] of
                                 Inl ex \<Rightarrow> (Inl ex, w'')
                               | Inr out \<Rightarrow>
                                   (case combine_output out [CHR 0x0A] of
                                      Inl ex \<Rightarrow> (Inl ex, w'')
                                    | Inr text \<Rightarrow>
                                        (Inr (join [CHR 0x0A]
                                                (filter_lines filename
                                                   (split [CHR 0x0A] text))),
                                         w''))))))
           in (res, rmtree sys (resolve (cwd w2) d) w2)))"

section \<open>Example machines\<close>

text \<open>
  A POSIX machine whose only interpreter is \<open>/usr/bin/python\<close>, a Python 2.7.18, in an
  editor whose built-in Python is 3.8.
\<close>

definition host_py27 :: host where
  "host_py27 =
     \<lparr>platform = ''linux'', sys_version_info = (3, 8),
      find_executable = (\<lambda>name. if name = ''python'' then Some ''/usr/bin/python'' else None),
      communicate_V = (\<lambda>path. Inr ''Python 2.7.18''),
      glob_python = [], python_prefix = [],
      can_exec = (\<lambda>path. False), path_exists = (\<lambda>path. False),
      ntpath_join = (\<lambda>a b. a @ b), ntpath_dirname = (\<lambda>a. a)\<rparr>"

text \<open>
  The same machine with a \<open>python2.7\<close> on its \<open>PATH\<close> instead.
\<close>

definition host_py38 :: host where
  "host_py38 =
     \<lparr>platform = ''linux'', sys_version_info = (3, 8),
      find_executable =
        (\<lambda>name. if name = ''python2.7'' then Some ''/usr/bin/python2.7'' else None),
      communicate_V = (\<lambda>path. Inr ''Python 2.7.18''),
      glob_python = [], python_prefix = [],
      can_exec = (\<lambda>path. False), path_exists = (\<lambda>path. False),
      ntpath_join = (\<lambda>a b. a @ b), ntpath_dirname = (\<lambda>a. a)\<rparr>"

text \<open>
  A POSIX machine on which every command starts and reports one line on each stream.
\<close>

definition sys_lint :: system where
  "sys_lint =
     \<lparr>os_name = ''posix'', pathsep = '':'', pandoc_path = None,
      Popen = (\<lambda>cmd e dir.
                 Some \<lparr>answer = (\<lambda>input. Inr (Utf8 ''a.py:1: error'', Utf8 ''b.py:2: error'')),
                       in_time = True\<rparr>),
      NamedTemporaryFile = (\<lambda>suffix. Some (''/tmp/tmpfile'' @ suffix)),
      mkdtemp = Some ''/tmp/tmpdir'',
      write_ok = (\<lambda>p. True), copy_ok = (\<lambda>a b. True), mkdir_ok = (\<lambda>p. True),
      chdir_ok = (\<lambda>p. True), undeletable = (\<lambda>p. False)\<rparr>"

text \<open>
  The same machine with every child process hanging (the login-shell probe runs into its
  timeout); with every child process writing bytes that are not valid UTF-8; with no
  command able to start; with no file able to be copied; and with a temporary directory
  the operating system refuses to remove.
\<close>

definition sys_timeout :: system where
  "sys_timeout =
     sys_lint\<lparr>Popen := (\<lambda>cmd e dir.
                 Some \<lparr>answer = (\<lambda>input. Inr (Utf8 [], Utf8 [])), in_time = False\<rparr>)\<rparr>"

definition sys_garbled :: system where
  "sys_garbled =
     sys_lint\<lparr>Popen := (\<lambda>cmd e dir.
                 Some \<lparr>answer = (\<lambda>input. Inr (NotUtf8, Utf8 [])), in_time = True\<rparr>)\<rparr>"

definition sys_no_spawn :: system where
  "sys_no_spawn = sys_lint\<lparr>Popen := (\<lambda>cmd e dir. None)\<rparr>"

definition sys_no_copy :: system where
  "sys_no_copy = sys_lint\<lparr>copy_ok := (\<lambda>a b. False)\<rparr>"

definition sys_locked :: system where
  "sys_locked = sys_lint\<lparr>undeletable := (\<lambda>p. p = [''tmp'', ''tmpdir''])\<rparr>"

text \<open>
  A session whose \<open>SHELL\<close> is bash, before anything was cached; a session with no
  \<open>SHELL\<close> set, and the environment built from it.
\<close>

definition world_bash :: world where
  "world_bash =
     \<lparr>environ = [''SHELL'' \<mapsto> ''/bin/bash'', ''PATH'' \<mapsto> ''/bin''],
      environment_cache = None, messages = [], paths = {[''tmp'']}, cwd = [''home''],
      remove_calls = []\<rparr>"

definition world_plain :: world where
  "world_plain =
     \<lparr>environ = [''PATH'' \<mapsto> ''/usr/bin''],
      environment_cache = None, messages = [], paths = {[''tmp'']}, cwd = [''home''],
      remove_calls = []\<rparr>"

definition env_plain :: "string \<rightharpoonup> string" where
  "env_plain =
     [''PATH'' \<mapsto> ''/usr/bin:/usr/local/bin:/usr/local/php/bin:/usr/local/php5/bin'',
      ''PYTHONIOENCODING'' \<mapsto> ''utf8'']"

text \<open>Two worlds with the same disk: places, working directory and removals.\<close>

definition same_disk :: "world \<Rightarrow> world \<Rightarrow> bool" where
  "same_disk w w' = (paths w' = paths w \<and> cwd w' = cwd w \<and> remove_calls w' = remove_calls w)"

section \<open>Termination\<close>

lemma startswith_Cons_ex: "startswith s (p # ps) \<Longrightarrow> \<exists>t. s = p # t"
  by (cases s) auto

lemma ats_takeWhile: "ats (takeWhile (\<lambda>c. c \<noteq> CHR ''@'') s) = 0"
  by (induction s) (auto simp: ats_def)

lemma PYTHON_CMD_RE_match_ats:
  assumes "PYTHON_CMD_RE_match cmd = Some (script, version)"
  shows "0 < ats cmd \<and> (case script of None \<Rightarrow> 0 | Some t \<Rightarrow> ats t) = 0"
proof -
  from assms have sw: "startswith (dropWhile (\<lambda>c. c \<noteq> CHR ''@'') cmd) ''@python''"
    and sc: "script = (if takeWhile (\<lambda>c. c \<noteq> CHR ''@'') cmd = [] then None
                       else Some (takeWhile (\<lambda>c. c \<noteq> CHR ''@'') cmd))"
    by (auto simp: PYTHON_CMD_RE_match_def Let_def split: if_splits)
  from sw obtain t where "dropWhile (\<lambda>c. c \<noteq> CHR ''@'') cmd = CHR ''@'' # t"
    using startswith_Cons_ex by blast
  then have "CHR ''@'' \<in> set cmd"
    by (metis list.set_intros(1) set_dropWhileD)
  then have "0 < ats cmd"
    by (simp add: ats_def filter_empty_conv)
  moreover have "(case script of None \<Rightarrow> 0 | Some t \<Rightarrow> ats t) = 0"
    by (simp add: sc ats_takeWhile)
  ultimately show ?thesis by simp
qed

text \<open>
  A name matched by \<open>PYTHON_CMD_RE\<close> holds an \<open>@\<close> and its script group holds none, so
  the lookups nest at most twice.
\<close>

termination find_python
proof (relation "measure (\<lambda>x. case x of
           Inl (h, v, s, m) \<Rightarrow> 4 * (case s of None \<Rightarrow> 0 | Some t \<Rightarrow> ats t) + 2
         | Inr (Inl (h, p, s)) \<Rightarrow> 4 * ats s + 1
         | Inr (Inr (h, c, m)) \<Rightarrow> 4 * ats c)", goal_cases)
  case (4 h cmd module x2 x y)
  then have "PYTHON_CMD_RE_match cmd = Some (x, y)" by simp
  from PYTHON_CMD_RE_match_ats [OF this] show ?case
    by (auto split: option.splits)
qed simp_all

lemma ANSI_COLOR_RE_match_shorter:
  assumes "ANSI_COLOR_RE_match s = Some t"
  shows "length t < length s"
proof -
  from assms obtain c where c: "dropWhile (\<lambda>c. isdigit c \<or> c = CHR '';'') (drop 2 s) = c # t"
    by (auto simp: ANSI_COLOR_RE_match_def split: if_splits list.splits)
  have "length (c # t) \<le> length (drop 2 s)"
    unfolding c [symmetric] by (rule length_dropWhile_le)
  then show ?thesis by simp
qed

termination ANSI_COLOR_RE_sub
  by (relation "measure length") (auto dest: ANSI_COLOR_RE_match_shorter)

text \<open>
  \<open>run_shell_cmd\<close> passes \<open>os.environ\<close> to \<open>popen\<close>, which then does not call
  \<open>create_environment\<close>: the cycle is entered at most once.
\<close>

termination popen
  by (relation "measure (\<lambda>x. case x of
         Inl (Inl (sys, w, cmd, output_stream, env, extra_env)) \<Rightarrow>
           (if env = EnvNone then 5 else 0)
       | Inl (Inr (sys, w, cmd)) \<Rightarrow> 1
       | Inr (Inl (sys, w, cmd, delim)) \<Rightarrow> 2
       | Inr (Inr (Inl (sys, w, env))) \<Rightarrow> 3
       | Inr (Inr (Inr (sys, w))) \<Rightarrow> 4)") simp_all

text \<open>The recursive equations are unfolded by hand from here on.\<close>

declare popen.simps [simp del] run_shell_cmd.simps [simp del] extract_path.simps [simp del]
  get_shell_path.simps [simp del] create_environment.simps [simp del]
  ANSI_COLOR_RE_sub.simps [simp del]

section \<open>Splitting with enough cuts\<close>

lemma find_sep_shorter:
  "find_sep sep s = Some (a, b) \<Longrightarrow> sep \<noteq> [] \<Longrightarrow> length b < length s"
proof (induction s arbitrary: a)
  case Nil
  then show ?case by simp
next
  case (Cons c cs)
  show ?case
  proof (cases "startswith (c # cs) sep")
    case True
    with Cons.prems show ?thesis by auto
  next
    case False
    with Cons.prems obtain a' where "find_sep sep cs = Some (a', b)"
      by (auto split: option.splits)
    with Cons.IH Cons.prems(2) show ?thesis by fastforce
  qed
qed

lemma split_max_enough_gen:
  "sep \<noteq> [] \<Longrightarrow> length s \<le> n \<Longrightarrow> length s \<le> m \<Longrightarrow> split_max sep n s = split_max sep m s"
proof (induction n arbitrary: s m)
  case 0
  then show ?case by (cases m) simp_all
next
  case (Suc n)
  show ?case
  proof (cases m)
    case 0
    with Suc.prems show ?thesis by simp
  next
    case (Suc m')
    show ?thesis
    proof (cases "find_sep sep s")
      case None
      then show ?thesis by (simp add: Suc)
    next
      case (Some ab)
      obtain a b where ab: "ab = (a, b)" by (cases ab)
      with Some Suc.prems(1) have "length b < length s"
        using find_sep_shorter by blast
      with Suc.prems Suc have "length b \<le> n" "length b \<le> m'" by simp_all
      with Suc.IH Suc.prems(1) have "split_max sep n b = split_max sep m' b" by blast
      with Some ab Suc show ?thesis by simp
    qed
  qed
qed

lemma split_max_enough:
  "sep \<noteq> [] \<Longrightarrow> length s \<le> n \<Longrightarrow> split_max sep n s = split sep s"
  unfolding split_def by (rule split_max_enough_gen) simp_all

section \<open>Version parsing and comparison\<close>

lemma takeWhile_run:
  "\<forall>c\<in>set ds. P c \<Longrightarrow> rest = [] \<or> \<not> P (hd rest) \<Longrightarrow> takeWhile P (ds @ rest) = ds"
  by (cases rest) (simp_all add: takeWhile_append2)

lemma dropWhile_run:
  "\<forall>c\<in>set ds. P c \<Longrightarrow> rest = [] \<or> \<not> P (hd rest) \<Longrightarrow> dropWhile P (ds @ rest) = rest"
  by (cases rest) (simp_all add: dropWhile_append2)

lemma VERSION_RE_match_no_digit:
  "s = [] \<or> \<not> isdigit (hd s) \<Longrightarrow> VERSION_RE_match s = None"
  by (cases s) (auto simp: VERSION_RE_match_def)

lemma VERSION_RE_match_major_minor:
  assumes "ds \<noteq> []" "\<forall>c\<in>set ds. isdigit c" "ms \<noteq> []" "\<forall>c\<in>set ms. isdigit c"
    and "rest = [] \<or> \<not> isdigit (hd rest)"
  shows "VERSION_RE_match (ds @ CHR ''.'' # ms @ rest) = Some (ds, Some ms)"
proof -
  have nd: "\<not> isdigit CHR ''.''" by (simp add: isdigit_def)
  have t: "takeWhile isdigit (ds @ CHR ''.'' # ms @ rest) = ds"
    using assms(2) nd by (intro takeWhile_run) auto
  have d: "dropWhile isdigit (ds @ CHR ''.'' # ms @ rest) = CHR ''.'' # ms @ rest"
    using assms(2) nd by (intro dropWhile_run) auto
  have m: "takeWhile isdigit (ms @ rest) = ms"
    using assms(4,5) by (intro takeWhile_run) auto
  show ?thesis
    using assms(1,3) by (simp add: VERSION_RE_match_def Let_def t d m)
qed

lemma VERSION_RE_match_major_only:
  assumes "ds \<noteq> []" "\<forall>c\<in>set ds. isdigit c"
    and "rest = [] \<or> \<not> isdigit (hd rest)"
    and "\<not> (\<exists>c r. rest = CHR ''.'' # c # r \<and> isdigit c)"
  shows "VERSION_RE_match (ds @ rest) = Some (ds, None)"
proof -
  have t: "takeWhile isdigit (ds @ rest) = ds"
    using assms(2,3) by (intro takeWhile_run) auto
  have d: "dropWhile isdigit (ds @ rest) = rest"
    using assms(2,3) by (intro dropWhile_run) auto
  have e: "rest = [] \<or> (\<exists>c r. rest = c # r \<and> (c = CHR ''.'' \<longrightarrow> takeWhile isdigit r = []))"
  proof (cases rest)
    case Nil
    then show ?thesis by simp
  next
    case (Cons c r)
    then show ?thesis using assms(4) by (cases r) auto
  qed
  show ?thesis
    unfolding VERSION_RE_match_def Let_def t d using assms(1) e by auto
qed

lemma int_of_digits_snoc:
  "int_of_digits (ds @ [c]) = 10 * int_of_digits ds + digit_val c"
  by (simp add: int_of_digits_def)

text \<open>
  C2. \<open>extract_major_minor_version\<close>: a string that does not start with a digit yields
  \<open>{major: None, minor: None}\<close>; a leading run of digits \<open>ds\<close> is the major version, and
  the minor version is the run of digits \<open>ms\<close> after a dot that follows \<open>ds\<close>, or
  \<open>None\<close> when no dot and digit follow. The number of a run of digits is its decimal
  value: \<open>int_of_digits\<close> of no digits is 0, and one more digit multiplies by ten and
  adds the digit's value.
\<close>

theorem extract_major_minor_version_parse:
  "(s = [] \<or> \<not> isdigit (hd s) \<longrightarrow>
      extract_major_minor_version s = \<lparr>major = None, minor = None\<rparr>)
   \<and> (ds \<noteq> [] \<and> (\<forall>c\<in>set ds. isdigit c) \<and> (rest = [] \<or> \<not> isdigit (hd rest))
        \<and> \<not> (\<exists>c r. rest = CHR ''.'' # c # r \<and> isdigit c) \<longrightarrow>
      extract_major_minor_version (ds @ rest) =
        \<lparr>major = Some (int_of_digits ds), minor = None\<rparr>)
   \<and> (ds \<noteq> [] \<and> (\<forall>c\<in>set ds. isdigit c) \<and> ms \<noteq> [] \<and> (\<forall>c\<in>set ms. isdigit c)
        \<and> (rest = [] \<or> \<not> isdigit (hd rest)) \<longrightarrow>
      extract_major_minor_version (ds @ CHR ''.'' # ms @ rest) =
        \<lparr>major = Some (int_of_digits ds), minor = Some (int_of_digits ms)\<rparr>)
   \<and> int_of_digits [] = 0
   \<and> (\<forall>ns c. int_of_digits (ns @ [c]) = 10 * int_of_digits ns + digit_val c)
   \<and> map digit_val ''0123456789'' = [0, 1, 2, 3, 4, 5, 6, 7, 8, 9]"
  by (simp add: extract_major_minor_version_def VERSION_RE_match_no_digit
      VERSION_RE_match_major_minor VERSION_RE_match_major_only int_of_digits_snoc)
    (simp add: int_of_digits_def digit_val_def)

theorem extract_major_minor_version_parse_witness:
  "extract_major_minor_version ''3'' = \<lparr>major = Some 3, minor = None\<rparr>
   \<and> extract_major_minor_version ''3.8'' = \<lparr>major = Some 3, minor = Some 8\<rparr>
   \<and> extract_major_minor_version ''2.7.18'' = \<lparr>major = Some 2, minor = Some 7\<rparr>
   \<and> extract_major_minor_version ''3.x'' = \<lparr>major = Some 3, minor = None\<rparr>
   \<and> extract_major_minor_version ''python'' = \<lparr>major = None, minor = None\<rparr>
   \<and> extract_major_minor_version [] = \<lparr>major = None, minor = None\<rparr>"
  using extract_major_minor_version_parse [of "''python''" "''3''" "[]" "''8''"]
    extract_major_minor_version_parse [of "[]" "''3''" "''.x''" "''8''"]
    extract_major_minor_version_parse [of "[]" "''2''" "''.18''" "''7''"]
  by (simp add: isdigit_def int_of_digits_def digit_val_def)

text \<open>
  C1. \<open>version_fulfills_request(available, requested)\<close>: true when the requested major
  is absent; false when the requested major is set and differs from the available one;
  true when the majors agree and no minor is requested; and when both a major \<open>M\<close> and a
  minor \<open>N\<close> are requested, true exactly when the available major is \<open>M\<close> and the
  available minor is present and at least \<open>N\<close>.
\<close>

theorem version_fulfills_request_semantics:
  "(major r = None \<longrightarrow> version_fulfills_request a r)
   \<and> (major r \<noteq> None \<and> major r \<noteq> major a \<longrightarrow> \<not> version_fulfills_request a r)
   \<and> (major r \<noteq> None \<and> major r = major a \<and> minor r = None \<longrightarrow> version_fulfills_request a r)
   \<and> (major r = Some M \<and> minor r = Some N \<longrightarrow>
        version_fulfills_request a r =
          (major a = Some M \<and> (\<exists>n. minor a = Some n \<and> n \<ge> N)))"
  by (auto simp: version_fulfills_request_def split: option.splits)

theorem version_fulfills_request_semantics_witness:
  "version_fulfills_request \<lparr>major = Some 3, minor = Some 8\<rparr> \<lparr>major = None, minor = Some 9\<rparr>
   \<and> \<not> version_fulfills_request \<lparr>major = Some 3, minor = Some 8\<rparr> \<lparr>major = Some 2, minor = None\<rparr>
   \<and> version_fulfills_request \<lparr>major = Some 3, minor = None\<rparr> \<lparr>major = Some 3, minor = None\<rparr>
   \<and> version_fulfills_request \<lparr>major = Some 3, minor = Some 8\<rparr> \<lparr>major = Some 3, minor = Some 3\<rparr>
   \<and> \<not> version_fulfills_request \<lparr>major = Some 3, minor = None\<rparr> \<lparr>major = Some 3, minor = Some 3\<rparr>"
  using version_fulfills_request_semantics
      [of "\<lparr>major = None, minor = Some 9\<rparr>" "\<lparr>major = Some 3, minor = Some 8\<rparr>" 0 0]
    version_fulfills_request_semantics
      [of "\<lparr>major = Some 2, minor = None\<rparr>" "\<lparr>major = Some 3, minor = Some 8\<rparr>" 0 0]
    version_fulfills_request_semantics
      [of "\<lparr>major = Some 3, minor = None\<rparr>" "\<lparr>major = Some 3, minor = None\<rparr>" 0 0]
    version_fulfills_request_semantics
      [of "\<lparr>major = Some 3, minor = Some 3\<rparr>" "\<lparr>major = Some 3, minor = Some 8\<rparr>" 3 3]
    version_fulfills_request_semantics
      [of "\<lparr>major = Some 3, minor = Some 3\<rparr>" "\<lparr>major = Some 3, minor = None\<rparr>" 3 3]
  by simp

section \<open>Interpreter resolution: results\<close>

lemma extract_3: "extract_major_minor_version ''3'' = \<lparr>major = Some 3, minor = None\<rparr>"
  by (simp add: extract_major_minor_version_def VERSION_RE_match_def isdigit_def
      int_of_digits_def digit_val_def)

lemma extract_2_7: "extract_major_minor_version ''2.7'' = \<lparr>major = Some 2, minor = Some 7\<rparr>"
  by (simp add: extract_major_minor_version_def VERSION_RE_match_def isdigit_def
      int_of_digits_def digit_val_def)

lemma extract_2_7_18:
  "extract_major_minor_version ''2.7.18'' = \<lparr>major = Some 2, minor = Some 7\<rparr>"
  by (simp add: extract_major_minor_version_def VERSION_RE_match_def isdigit_def
      int_of_digits_def digit_val_def)

lemma get_python_version_py27:
  "get_python_version host_py27 p = \<lparr>major = Some 2, minor = Some 7\<rparr>"
  by (simp add: get_python_version_def host_py27_def split_def extract_2_7_18)

lemma find_posix_python_py27: "find_posix_python host_py27 ''3'' = Some ''/usr/bin/python''"
  by (simp add: find_posix_python_def host_py27_def)

lemma py27_rejected:
  "\<not> version_fulfills_request (get_python_version host_py27 ''/usr/bin/python'')
       (extract_major_minor_version ''3'')"
  by (simp add: get_python_version_py27 extract_3 version_fulfills_request_def)

text \<open>
  C3, as the code has it. When a version \<open>v\<close> is requested, the search of the file system
  is what decides (no module, or the built-in version does not fulfil the request), it
  finds a path \<open>p\<close> that is not the sentinel, and the version probed from \<open>p\<close> does not
  fulfil the request, then \<open>find_python\<close> returns no path and no script path, together
  with the major and minor version probed from \<open>p\<close>: the version is not cleared (it is
  absent only when the probe itself gave none).
\<close>

theorem find_python_version_mismatch:
  assumes "module \<longrightarrow>
             \<not> version_fulfills_request
                 \<lparr>major = Some (fst (sys_version_info h)), minor = Some (snd (sys_version_info h))\<rparr>
                 (extract_major_minor_version v)"
    and "(if platform h \<in> {''osx'', ''linux''} then Inr (find_posix_python h v)
          else find_windows_python h v) = Inr (Some p)"
    and "p \<noteq> []" and "p \<noteq> ''<builtin>''"
    and "\<not> version_fulfills_request (get_python_version h p) (extract_major_minor_version v)"
  shows "find_python h (Some v) script module =
           Inr (None, Nothing, major (get_python_version h p), minor (get_python_version h p))"
  using assms by (cases module) (simp_all add: Let_def)

theorem find_python_version_mismatch_witness:
  "find_python host_py27 (Some ''3'') (Some ''pep8'') False = Inr (None, Nothing, Some 2, Some 7)"
proof -
  have c: "platform host_py27 = ''linux''"
    by (simp add: host_py27_def)
  show ?thesis
    using find_python_version_mismatch
        [of False host_py27 "''3''" "''/usr/bin/python''" "Some ''pep8''"]
      find_posix_python_py27 py27_rejected c
    by (simp add: get_python_version_py27)
qed

text \<open>
  C3 as stated fails: on \<open>host_py27\<close> a request for version 3 finds
  \<open>/usr/bin/python\<close>, whose probed version 2.7 is rejected, and the result carries
  major 2 and minor 7 instead of two absent values.
\<close>

theorem find_python_version_mismatch_counterexample:
  "find_posix_python host_py27 ''3'' = Some ''/usr/bin/python''
   \<and> get_python_version host_py27 ''/usr/bin/python'' = \<lparr>major = Some 2, minor = Some 7\<rparr>
   \<and> \<not> version_fulfills_request (get_python_version host_py27 ''/usr/bin/python'')
         (extract_major_minor_version ''3'')
   \<and> find_python host_py27 (Some ''3'') None False = Inr (None, Nothing, Some 2, Some 7)
   \<and> find_python host_py27 (Some ''3'') None False \<noteq> Inr (None, Nothing, None, None)"
proof -
  have c: "platform host_py27 = ''linux''"
    by (simp add: host_py27_def)
  have "find_python host_py27 (Some ''3'') None False = Inr (None, Nothing, Some 2, Some 7)"
    using find_posix_python_py27 py27_rejected c by (simp add: Let_def get_python_version_py27)
  with find_posix_python_py27 py27_rejected show ?thesis
    by (simp add: get_python_version_py27)
qed

text \<open>
  C7. \<open>find_python\<close> called with a requested version \<open>v\<close> and a module: when the
  host's own version \<open>(ma, mi)\<close> fulfils the request parsed from \<open>v\<close>, the result is the
  sentinel \<open><builtin>\<close> with the host's major and minor, whatever the file system holds
  (no other field of the host is read). On a host whose built-in version is 3.8, a request
  for \<open>3\<close> gives the sentinel with major 3 and minor 8. When the built-in version does
  not fulfil the request, as for \<open>2.7\<close> on that host, the search of the file system
  decides: with a path found, the result is the one \<open>find_python\<close> gives without a
  module, and with none found, no path and the host's version.
\<close>

theorem find_python_builtin:
  "(sys_version_info h = (ma, mi)
      \<and> version_fulfills_request \<lparr>major = Some ma, minor = Some mi\<rparr>
          (extract_major_minor_version v) \<longrightarrow>
     find_python h (Some v) script True = Inr (Some ''<builtin>'', Nothing, Some ma, Some mi))
   \<and> (sys_version_info h = (3, 8) \<longrightarrow>
     find_python h (Some ''3'') script True = Inr (Some ''<builtin>'', Nothing, Some 3, Some 8))
   \<and> (sys_version_info h = (ma, mi)
      \<and> \<not> version_fulfills_request \<lparr>major = Some ma, minor = Some mi\<rparr>
            (extract_major_minor_version v) \<longrightarrow>
     find_python h (Some v) script True =
       (case (if platform h \<in> {''osx'', ''linux''} then Inr (find_posix_python h v)
              else find_windows_python h v) of
          Inl ex \<Rightarrow> Inl ex
        | Inr path \<Rightarrow>
            if truthy path \<and> path \<noteq> Some ''<builtin>''
            then find_python h (Some v) script False
            else Inr (path, Nothing, Some ma, Some mi)))
   \<and> (sys_version_info h = (3, 8) \<longrightarrow>
     find_python h (Some ''2.7'') script True =
       (case (if platform h \<in> {''osx'', ''linux''} then Inr (find_posix_python h ''2.7'')
              else find_windows_python h ''2.7'') of
          Inl ex \<Rightarrow> Inl ex
        | Inr path \<Rightarrow>
            if truthy path \<and> path \<noteq> Some ''<builtin>''
            then find_python h (Some ''2.7'') script False
            else Inr (path, Nothing, Some 3, Some 8)))"
proof (intro conjI impI)
  assume "sys_version_info h = (ma, mi)
      \<and> version_fulfills_request \<lparr>major = Some ma, minor = Some mi\<rparr>
          (extract_major_minor_version v)"
  then show "find_python h (Some v) script True
      = Inr (Some ''<builtin>'', Nothing, Some ma, Some mi)"
    by (simp add: Let_def)
next
  assume "sys_version_info h = (3, 8)"
  then show "find_python h (Some ''3'') script True
      = Inr (Some ''<builtin>'', Nothing, Some 3, Some 8)"
    by (simp add: Let_def extract_3 version_fulfills_request_def)
next
  assume a: "sys_version_info h = (ma, mi)
      \<and> \<not> version_fulfills_request \<lparr>major = Some ma, minor = Some mi\<rparr>
            (extract_major_minor_version v)"
  then show "find_python h (Some v) script True =
       (case (if platform h \<in> {''osx'', ''linux''} then Inr (find_posix_python h v)
              else find_windows_python h v) of
          Inl ex \<Rightarrow> Inl ex
        | Inr path \<Rightarrow>
            if truthy path \<and> path \<noteq> Some ''<builtin>''
            then find_python h (Some v) script False
            else Inr (path, Nothing, Some ma, Some mi))"
    by (cases "platform h \<in> {''osx'', ''linux''}")
      (auto simp: Let_def split: sum.splits option.splits)
next
  assume a: "sys_version_info h = (3, 8)"
  have n: "\<not> version_fulfills_request \<lparr>major = Some 3, minor = Some 8\<rparr>
            (extract_major_minor_version ''2.7'')"
    by (simp add: extract_2_7 version_fulfills_request_def)
  from a n show "find_python h (Some ''2.7'') script True =
       (case (if platform h \<in> {''osx'', ''linux''} then Inr (find_posix_python h ''2.7'')
              else find_windows_python h ''2.7'') of
          Inl ex \<Rightarrow> Inl ex
        | Inr path \<Rightarrow>
            if truthy path \<and> path \<noteq> Some ''<builtin>''
            then find_python h (Some ''2.7'') script False
            else Inr (path, Nothing, Some 3, Some 8))"
    by (cases "platform h \<in> {''osx'', ''linux''}")
      (auto simp: Let_def split: sum.splits option.splits)
qed

theorem find_python_builtin_witness:
  "find_python host_py38 (Some ''3'') None True = Inr (Some ''<builtin>'', Nothing, Some 3, Some 8)
   \<and> find_python host_py38 (Some ''3.3'') None True
       = Inr (Some ''<builtin>'', Nothing, Some 3, Some 8)
   \<and> find_python host_py38 (Some ''2.7'') None True
       = Inr (Some ''/usr/bin/python2.7'', Nothing, Some 2, Some 7)
   \<and> find_python (host_py38\<lparr>find_executable := (\<lambda>name. None)\<rparr>) (Some ''2.7'') None True
       = Inr (None, Nothing, Some 3, Some 8)"
proof -
  have s: "sys_version_info host_py38 = (3, 8)" "platform host_py38 = ''linux''"
    by (simp_all add: host_py38_def)
  have e: "extract_major_minor_version ''3.3'' = \<lparr>major = Some 3, minor = Some 3\<rparr>"
    by (simp add: extract_major_minor_version_def VERSION_RE_match_def Let_def isdigit_def
        int_of_digits_def digit_val_def)
  have f: "find_posix_python host_py38 ''2.7'' = Some ''/usr/bin/python2.7''"
    "find_posix_python (host_py38\<lparr>find_executable := (\<lambda>name. None)\<rparr>) ''2.7'' = None"
    by (simp_all add: find_posix_python_def host_py38_def)
  have g: "get_python_version host_py38 ''/usr/bin/python2.7'' = \<lparr>major = Some 2, minor = Some 7\<rparr>"
    by (simp add: get_python_version_def host_py38_def split_def extract_2_7_18)
  have n: "find_python host_py38 (Some ''2.7'') None False
       = Inr (Some ''/usr/bin/python2.7'', Nothing, Some 2, Some 7)"
    by (simp add: Let_def s f g extract_2_7 version_fulfills_request_def)
  show ?thesis
    using find_python_builtin [of host_py38 3 8 "''3.3''" None]
      find_python_builtin [of "host_py38\<lparr>find_executable := (\<lambda>name. None)\<rparr>" 3 8 "''3.3''" None]
      s e f n
    by (simp add: version_fulfills_request_def)
qed

section \<open>Processes and the environment: results\<close>

lemma popen_given_env:
  "env \<noteq> EnvNone \<Longrightarrow>
   popen sys w cmd output_stream env extra_env =
     (Inr (map_option
            (\<lambda>c. \<lparr>child_of = c,
                  stdout_piped = (output_stream = STREAM_BOTH \<or> output_stream = STREAM_STDOUT),
                  stderr_piped = (output_stream \<noteq> STREAM_STDOUT)\<rparr>)
            (Popen sys cmd
               ((case env of OsEnviron \<Rightarrow> environ w | Dict e \<Rightarrow> e) ++
                (case extra_env of None \<Rightarrow> Map.empty | Some x \<Rightarrow> x))
               (cwd w))),
      case (env, extra_env) of
        (OsEnviron, Some x) \<Rightarrow> w\<lparr>environ := environ w ++ x\<rparr>
      | _ \<Rightarrow> w)"
  by (cases env; cases extra_env)
    (auto simp: popen.simps STREAM_BOTH_def STREAM_STDOUT_def STREAM_STDERR_def)

lemma run_shell_cmd_eq:
  "run_shell_cmd sys w cmd =
     (case Popen sys cmd (environ w) (cwd w) of
        None \<Rightarrow> (Inl AttributeError, w)
      | Some c \<Rightarrow>
          if in_time c then
            (case answer c [] of Inl ex \<Rightarrow> (Inl ex, w) | Inr (out, err) \<Rightarrow> (Inr (Some out), w))
          else (Inr (Some (Utf8 [])), w))"
  by (simp add: run_shell_cmd.simps popen_given_env communicate_proc_def STREAM_BOTH_def
      STREAM_STDERR_def STREAM_STDOUT_def split: option.splits sum.splits)

lemma run_shell_cmd_world: "snd (run_shell_cmd sys w cmd) = w"
  by (simp add: run_shell_cmd_eq split: option.splits sum.splits)

lemma extract_path_disk: "same_disk w (snd (extract_path sys w cmd delim))"
proof -
  obtain r where r: "run_shell_cmd sys w cmd = (r, w)"
    using run_shell_cmd_world [of sys w cmd] by (cases "run_shell_cmd sys w cmd") auto
  show ?thesis
    by (simp add: extract_path.simps r same_disk_def Let_def split: sum.splits option.splits)
qed

lemma get_shell_path_disk: "same_disk w (snd (get_shell_path sys w env))"
  using extract_path_disk [of w sys]
  by (simp add: get_shell_path.simps Let_def same_disk_def split: option.splits)

lemma create_environment_disk: "same_disk w (snd (create_environment sys w))"
proof -
  obtain r w' where g: "get_shell_path sys w (environ w) = (r, w')"
    by (cases "get_shell_path sys w (environ w)")
  with get_shell_path_disk [of w sys "environ w"] have "same_disk w w'" by simp
  then show ?thesis
    by (simp add: create_environment.simps g same_disk_def Let_def
        split: option.splits sum.splits)
qed

lemma popen_disk: "same_disk w (snd (popen sys w cmd output_stream env extra_env))"
proof (cases "env = EnvNone")
  case True
  obtain r w' where c: "create_environment sys w = (r, w')"
    by (cases "create_environment sys w")
  with create_environment_disk [of w sys] have "same_disk w w'" by simp
  then show ?thesis
    by (simp add: True popen.simps c same_disk_def split: sum.splits option.splits prod.splits)
next
  case False
  then show ?thesis
    by (simp add: popen_given_env same_disk_def split: env_arg.splits option.splits)
qed

lemma guess_path_eq:
  "guess_path splt p ds = p @ concat (map (\<lambda>d. '':'' @ d) (filter (\<lambda>d. d \<notin> set splt) ds))"
  by (induction ds arbitrary: p) simp_all

lemma split_max_no_sep: "find_sep sep s = None \<Longrightarrow> split_max sep n s = [s]"
  by (cases n) simp_all

lemma extract_path_no_marker:
  assumes "run_shell_cmd sys w cmd = (Inr (Some (Utf8 out)), w')"
    and "find_sep ''__SUBL_PATH__'' out = None"
  shows "extract_path sys w cmd delim = (Inr [], w'\<lparr>messages := messages w' @ [error_text]\<rparr>)"
  using assms by (simp add: extract_path.simps split_max_no_sep)

lemma extract_path_not_utf8:
  assumes "run_shell_cmd sys w cmd = (Inr (Some NotUtf8), w')"
  shows "extract_path sys w cmd delim = (Inl UnicodeDecodeError, w')"
  using assms by (simp add: extract_path.simps)

lemma get_shell_path_recognized:
  assumes "env ''SHELL'' = Some shell_path"
    and "basename shell_path \<in> {''bash'', ''zsh'', ''fish''}"
  shows "get_shell_path sys w env =
           extract_path sys w
             [shell_path, ''-l'', ''-c'',
              if basename shell_path = ''fish'' then fish_cmd else bash_cmd]
             (if basename shell_path = ''fish'' then [CHR 0x0A] else '':'')"
  using assms by (auto simp: get_shell_path.simps Let_def)

text \<open>
  C4, as the code has it. Let \<open>SHELL\<close> name bash, zsh or fish and let the login shell
  start. \<open>get_shell_path\<close> then never falls back. When the probe times out (its output
  counts as empty), or its output is valid UTF-8 and does not hold the marker,
  \<open>get_shell_path\<close> shows an error message and returns the empty string. When the
  output is not valid UTF-8, \<open>get_shell_path\<close> raises \<open>UnicodeDecodeError\<close>. The
  fallback (the ambient \<open>PATH\<close> followed by those of \<open>/usr/bin\<close>,
  \<open>/usr/local/bin\<close>, \<open>/usr/local/php/bin\<close>, \<open>/usr/local/php5/bin\<close> that are not
  among its entries, in that order) is what \<open>get_shell_path\<close> returns when \<open>SHELL\<close>
  is not set or names another shell.
\<close>

theorem get_shell_path_probe_failure:
  "(env ''SHELL'' = Some shell_path
      \<and> basename shell_path \<in> {''bash'', ''zsh'', ''fish''}
      \<and> Popen sys [shell_path, ''-l'', ''-c'',
                    if basename shell_path = ''fish'' then fish_cmd else bash_cmd]
           (environ w) (cwd w) = Some c
      \<and> \<not> in_time c \<longrightarrow>
     get_shell_path sys w env = (Inr [], w\<lparr>messages := messages w @ [error_text]\<rparr>))
   \<and> (env ''SHELL'' = Some shell_path
      \<and> basename shell_path \<in> {''bash'', ''zsh'', ''fish''}
      \<and> Popen sys [shell_path, ''-l'', ''-c'',
                    if basename shell_path = ''fish'' then fish_cmd else bash_cmd]
           (environ w) (cwd w) = Some c
      \<and> in_time c \<and> answer c [] = Inr (Utf8 out, err)
      \<and> find_sep ''__SUBL_PATH__'' out = None \<longrightarrow>
     get_shell_path sys w env = (Inr [], w\<lparr>messages := messages w @ [error_text]\<rparr>))
   \<and> (env ''SHELL'' = Some shell_path
      \<and> basename shell_path \<in> {''bash'', ''zsh'', ''fish''}
      \<and> Popen sys [shell_path, ''-l'', ''-c'',
                    if basename shell_path = ''fish'' then fish_cmd else bash_cmd]
           (environ w) (cwd w) = Some c
      \<and> in_time c \<and> answer c [] = Inr (NotUtf8, err) \<longrightarrow>
     get_shell_path sys w env = (Inl UnicodeDecodeError, w))
   \<and> ((env ''SHELL'' = None
        \<or> (\<exists>sp. env ''SHELL'' = Some sp \<and> basename sp \<notin> {''bash'', ''zsh'', ''fish''}))
      \<and> env ''PATH'' = Some p \<longrightarrow>
     get_shell_path sys w env =
       (Inr (p @ concat (map (\<lambda>d. '':'' @ d)
                (filter (\<lambda>d. d \<notin> set (split '':'' p))
                   [''/usr/bin'', ''/usr/local/bin'',
                    ''/usr/local/php/bin'', ''/usr/local/php5/bin'']))), w))"
proof (intro conjI impI)
  let ?probe = "[shell_path, ''-l'', ''-c'',
                 if basename shell_path = ''fish'' then fish_cmd else bash_cmd]"
  {
    assume a: "env ''SHELL'' = Some shell_path
      \<and> basename shell_path \<in> {''bash'', ''zsh'', ''fish''}
      \<and> Popen sys ?probe (environ w) (cwd w) = Some c
      \<and> \<not> in_time c"
    then have r: "run_shell_cmd sys w ?probe = (Inr (Some (Utf8 [])), w)"
      by (simp add: run_shell_cmd_eq)
    have n: "find_sep ''__SUBL_PATH__'' [] = None" by simp
    from a show "get_shell_path sys w env = (Inr [], w\<lparr>messages := messages w @ [error_text]\<rparr>)"
      by (simp add: get_shell_path_recognized extract_path_no_marker [OF r n])
  }
  {
    assume a: "env ''SHELL'' = Some shell_path
      \<and> basename shell_path \<in> {''bash'', ''zsh'', ''fish''}
      \<and> Popen sys ?probe (environ w) (cwd w) = Some c
      \<and> in_time c \<and> answer c [] = Inr (Utf8 out, err)
      \<and> find_sep ''__SUBL_PATH__'' out = None"
    then have r: "run_shell_cmd sys w ?probe = (Inr (Some (Utf8 out)), w)"
      by (simp add: run_shell_cmd_eq)
    from a have n: "find_sep ''__SUBL_PATH__'' out = None" by simp
    from a show "get_shell_path sys w env = (Inr [], w\<lparr>messages := messages w @ [error_text]\<rparr>)"
      by (simp add: get_shell_path_recognized extract_path_no_marker [OF r n])
  }
  {
    assume a: "env ''SHELL'' = Some shell_path
      \<and> basename shell_path \<in> {''bash'', ''zsh'', ''fish''}
      \<and> Popen sys ?probe (environ w) (cwd w) = Some c
      \<and> in_time c \<and> answer c [] = Inr (NotUtf8, err)"
    then have r: "run_shell_cmd sys w ?probe = (Inr (Some NotUtf8), w)"
      by (simp add: run_shell_cmd_eq)
    from a show "get_shell_path sys w env = (Inl UnicodeDecodeError, w)"
      by (simp add: get_shell_path_recognized extract_path_not_utf8 [OF r])
  }
  {
    assume "(env ''SHELL'' = None
        \<or> (\<exists>sp. env ''SHELL'' = Some sp \<and> basename sp \<notin> {''bash'', ''zsh'', ''fish''}))
      \<and> env ''PATH'' = Some p"
    then show "get_shell_path sys w env =
       (Inr (p @ concat (map (\<lambda>d. '':'' @ d)
                (filter (\<lambda>d. d \<notin> set (split '':'' p))
                   [''/usr/bin'', ''/usr/local/bin'',
                    ''/usr/local/php/bin'', ''/usr/local/php5/bin'']))), w)"
      by (auto simp: get_shell_path.simps Let_def guess_path_eq)
  }
qed

lemma basename_bin_bash: "basename ''/bin/bash'' = ''bash''"
  by (simp add: basename_def)

lemma split_bin: "split '':'' ''/bin:/usr/bin'' = [''/bin'', ''/usr/bin'']"
  by (simp add: split_def)

theorem get_shell_path_probe_failure_witness:
  "get_shell_path sys_timeout world_bash (environ world_bash)
     = (Inr [], world_bash\<lparr>messages := [error_text]\<rparr>)
   \<and> get_shell_path sys_lint world_bash (environ world_bash)
     = (Inr [], world_bash\<lparr>messages := [error_text]\<rparr>)
   \<and> get_shell_path sys_garbled world_bash (environ world_bash)
     = (Inl UnicodeDecodeError, world_bash)
   \<and> get_shell_path sys_timeout world_bash [''PATH'' \<mapsto> ''/bin:/usr/bin'']
     = (Inr ''/bin:/usr/bin:/usr/local/bin:/usr/local/php/bin:/usr/local/php5/bin'', world_bash)"
proof -
  have e: "environ world_bash ''SHELL'' = Some ''/bin/bash''" "messages world_bash = []"
    by (simp_all add: world_bash_def)
  have m: "find_sep ''__SUBL_PATH__'' ''a.py:1: error'' = None"
    by simp
  show ?thesis
    using get_shell_path_probe_failure
        [of "environ world_bash" "''/bin/bash''" sys_timeout world_bash
            "\<lparr>answer = (\<lambda>input. Inr (Utf8 [], Utf8 [])), in_time = False\<rparr>"
            "[]" "Utf8 []" "''/bin''"]
      get_shell_path_probe_failure
        [of "environ world_bash" "''/bin/bash''" sys_lint world_bash
            "\<lparr>answer = (\<lambda>input. Inr (Utf8 ''a.py:1: error'', Utf8 ''b.py:2: error'')),
              in_time = True\<rparr>"
            "''a.py:1: error''" "Utf8 ''b.py:2: error''" "''/bin''"]
      get_shell_path_probe_failure
        [of "environ world_bash" "''/bin/bash''" sys_garbled world_bash
            "\<lparr>answer = (\<lambda>input. Inr (NotUtf8, Utf8 [])), in_time = True\<rparr>"
            "[]" "Utf8 []" "''/bin''"]
      get_shell_path_probe_failure
        [of "[''PATH'' \<mapsto> ''/bin:/usr/bin'']" "''/bin/bash''" sys_timeout world_bash
            "\<lparr>answer = (\<lambda>input. Inr (Utf8 [], Utf8 [])), in_time = False\<rparr>"
            "[]" "Utf8 []" "''/bin:/usr/bin''"]
      e m
    by (simp add: basename_bin_bash split_bin sys_timeout_def sys_garbled_def sys_lint_def)
qed

text \<open>
  C4 as stated fails twice. With \<open>SHELL=/bin/bash\<close>, \<open>PATH=/bin\<close> and a probe that
  times out, \<open>get_shell_path\<close> returns the empty string, not \<open>/bin\<close> followed by the
  common directories; and with a probe whose output is not valid UTF-8 it raises.
\<close>

theorem get_shell_path_probe_failure_counterexample:
  "environ world_bash ''SHELL'' = Some ''/bin/bash''
   \<and> environ world_bash ''PATH'' = Some ''/bin''
   \<and> map_option in_time
         (Popen sys_timeout [''/bin/bash'', ''-l'', ''-c'', bash_cmd] (environ world_bash)
            (cwd world_bash))
       = Some False
   \<and> fst (get_shell_path sys_timeout world_bash (environ world_bash)) = Inr []
   \<and> fst (get_shell_path sys_timeout world_bash (environ world_bash))
       \<noteq> Inr ''/bin:/usr/bin:/usr/local/bin:/usr/local/php/bin:/usr/local/php5/bin''
   \<and> map_option (\<lambda>c. answer c [])
         (Popen sys_garbled [''/bin/bash'', ''-l'', ''-c'', bash_cmd] (environ world_bash)
            (cwd world_bash))
       = Some (Inr (NotUtf8, Utf8 []))
   \<and> fst (get_shell_path sys_garbled world_bash (environ world_bash)) = Inl UnicodeDecodeError"
proof -
  have r: "run_shell_cmd sys_timeout world_bash [''/bin/bash'', ''-l'', ''-c'', bash_cmd]
      = (Inr (Some (Utf8 [])), world_bash)"
    by (simp add: run_shell_cmd_eq sys_timeout_def sys_lint_def)
  have g: "run_shell_cmd sys_garbled world_bash [''/bin/bash'', ''-l'', ''-c'', bash_cmd]
      = (Inr (Some NotUtf8), world_bash)"
    by (simp add: run_shell_cmd_eq sys_garbled_def sys_lint_def)
  have e: "environ world_bash ''SHELL'' = Some ''/bin/bash''"
    by (simp add: world_bash_def)
  have n: "find_sep ''__SUBL_PATH__'' [] = None" by simp
  have 1: "get_shell_path sys_timeout world_bash (environ world_bash)
      = (Inr [], world_bash\<lparr>messages := messages world_bash @ [error_text]\<rparr>)"
    using e by (simp add: get_shell_path_recognized basename_bin_bash
        extract_path_no_marker [OF r n])
  have 2: "get_shell_path sys_garbled world_bash (environ world_bash)
      = (Inl UnicodeDecodeError, world_bash)"
    using e by (simp add: get_shell_path_recognized basename_bin_bash
        extract_path_not_utf8 [OF g])
  show ?thesis
    by (simp add: 1 2) (simp add: world_bash_def sys_timeout_def sys_garbled_def sys_lint_def)
qed

lemma create_environment_cached:
  "environment_cache w = Some e \<Longrightarrow> create_environment sys w = (Inr e, w)"
  by (simp add: create_environment.simps)

lemma popen_default_env:
  assumes "create_environment sys w = (Inr e, w')"
  shows "popen sys w cmd output_stream EnvNone extra_env =
     (Inr (map_option
            (\<lambda>c. \<lparr>child_of = c,
                  stdout_piped = (output_stream = STREAM_BOTH \<or> output_stream = STREAM_STDOUT),
                  stderr_piped = (output_stream \<noteq> STREAM_STDOUT)\<rparr>)
            (Popen sys cmd (case extra_env of None \<Rightarrow> e | Some x \<Rightarrow> e ++ x) (cwd w))),
      case extra_env of
        None \<Rightarrow> w'
      | Some x \<Rightarrow> w'\<lparr>environment_cache := Some (e ++ x)\<rparr>)"
proof -
  have "same_disk w w'"
    using create_environment_disk [of w sys] assms by simp
  then have "cwd w' = cwd w" by (simp add: same_disk_def)
  with assms show ?thesis
    by (cases extra_env)
      (auto simp: popen.simps STREAM_BOTH_def STREAM_STDOUT_def STREAM_STDERR_def)
qed

lemma split_usr_bin: "split '':'' ''/usr/bin'' = [''/usr/bin'']"
  by (simp add: split_def)

text \<open>
  On a POSIX machine without the pandoc setting, a session that has no \<open>SHELL\<close> and
  the \<open>PATH\<close> \<open>/usr/bin\<close> builds \<open>env_plain\<close>.
\<close>

lemma create_environment_no_shell:
  assumes "environment_cache w = None" "environ w = [''PATH'' \<mapsto> ''/usr/bin'']"
    and "os_name sys = ''posix''" "pandoc_path sys = None"
  shows "create_environment sys w = (Inr env_plain, w\<lparr>environment_cache := Some env_plain\<rparr>)"
  using assms
  by (simp add: create_environment.simps get_shell_path.simps env_plain_def Let_def
      split_usr_bin fun_upd_twist)

lemma create_environment_plain:
  "create_environment sys_lint world_plain
     = (Inr env_plain, world_plain\<lparr>environment_cache := Some env_plain\<rparr>)"
  by (rule create_environment_no_shell) (simp_all add: sys_lint_def world_plain_def)

text \<open>
  C6 at a concrete call. \<open>create_environment\<close> first returns an environment without
  \<open>LINT_FLAG\<close>; after \<open>popen\<close> was called once with
  \<open>extra_env = {'LINT_FLAG': '1'}\<close>, \<open>create_environment\<close> returns an environment
  that holds \<open>LINT_FLAG\<close>: the cached dict was changed in place.
\<close>

theorem popen_mutates_cached_environment:
  "fst (create_environment sys_lint world_plain) = Inr env_plain
   \<and> env_plain ''LINT_FLAG'' = None
   \<and> fst (create_environment sys_lint
            (snd (popen sys_lint (snd (create_environment sys_lint world_plain))
                    [''lint''] STREAM_STDOUT EnvNone (Some [''LINT_FLAG'' \<mapsto> ''1'']))))
       = Inr (env_plain(''LINT_FLAG'' \<mapsto> ''1''))
   \<and> fst (create_environment sys_lint
            (snd (popen sys_lint (snd (create_environment sys_lint world_plain))
                    [''lint''] STREAM_STDOUT EnvNone (Some [''LINT_FLAG'' \<mapsto> ''1'']))))
       \<noteq> fst (create_environment sys_lint world_plain)"
proof -
  let ?w0 = "world_plain\<lparr>environment_cache := Some env_plain\<rparr>"
  have c0: "create_environment sys_lint ?w0 = (Inr env_plain, ?w0)"
    by (simp add: create_environment_cached)
  have p: "snd (popen sys_lint ?w0 [''lint''] STREAM_STDOUT EnvNone (Some [''LINT_FLAG'' \<mapsto> ''1'']))
      = ?w0\<lparr>environment_cache := Some (env_plain(''LINT_FLAG'' \<mapsto> ''1''))\<rparr>"
    by (simp add: popen_default_env [OF c0])
  have n: "env_plain ''LINT_FLAG'' = None"
    by (simp add: env_plain_def)
  have d: "env_plain(''LINT_FLAG'' \<mapsto> ''1'') \<noteq> env_plain"
    using n by (metis fun_upd_same option.distinct(1))
  show ?thesis
    using n d by (simp add: create_environment_plain p create_environment_cached)
qed

text \<open>
  What \<open>popen\<close> does get right: once the environment is there, a command that cannot be
  started gives \<open>None\<close>, and \<open>communicate\<close> the empty string.
\<close>

lemma popen_swallows_spawn_failure:
  assumes "create_environment sys w = (Inr e, w')"
    and "Popen sys cmd (case extra_env of None \<Rightarrow> e | Some x \<Rightarrow> e ++ x) (cwd w) = None"
  shows "fst (popen sys w cmd output_stream EnvNone extra_env) = Inr None"
    and "fst (communicate sys w cmd code output_stream extra_env) = Inr []"
  using assms(2)
  by (simp_all add: communicate_def popen_default_env [OF assms(1)])

text \<open>
  C8 at a concrete call. No command can be started, the environment is not cached yet and
  \<open>SHELL\<close> is bash: \<open>popen\<close> asks \<open>create_environment\<close> for the environment, the
  login-shell probe cannot be started either, \<open>run_shell_cmd\<close> calls \<open>communicate\<close> on
  the \<open>None\<close> it got, and the \<open>AttributeError\<close> leaves \<open>popen\<close> and \<open>communicate\<close>.
  In a session without \<open>SHELL\<close> nothing is probed, and the same failing spawn gives
  \<open>None\<close> and the empty string.
\<close>

theorem popen_raises_on_spawn_failure:
  "environment_cache world_bash = None
   \<and> environ world_bash ''SHELL'' = Some ''/bin/bash''
   \<and> Popen sys_no_spawn [''lint'', ''-''] (environ world_bash) (cwd world_bash) = None
   \<and> fst (popen sys_no_spawn world_bash [''lint'', ''-''] STREAM_BOTH EnvNone None)
       = Inl AttributeError
   \<and> fst (communicate sys_no_spawn world_bash [''lint'', ''-''] ''x = 1'' STREAM_BOTH None)
       = Inl AttributeError
   \<and> fst (popen sys_no_spawn world_plain [''lint'', ''-''] STREAM_BOTH EnvNone None) = Inr None
   \<and> fst (communicate sys_no_spawn world_plain [''lint'', ''-''] ''x = 1'' STREAM_BOTH None)
       = Inr []"
proof -
  have r: "run_shell_cmd sys_no_spawn world_bash [''/bin/bash'', ''-l'', ''-c'', bash_cmd]
      = (Inl AttributeError, world_bash)"
    by (simp add: run_shell_cmd_eq sys_no_spawn_def)
  have e: "environ world_bash ''SHELL'' = Some ''/bin/bash''"
    "environment_cache world_bash = None"
    by (simp_all add: world_bash_def)
  have g: "get_shell_path sys_no_spawn world_bash (environ world_bash)
      = (Inl AttributeError, world_bash)"
    using e by (simp add: get_shell_path_recognized basename_bin_bash extract_path.simps r)
  have o: "os_name sys_no_spawn = ''posix''"
    by (simp add: sys_no_spawn_def sys_lint_def)
  have c: "create_environment sys_no_spawn world_bash = (Inl AttributeError, world_bash)"
    using e o by (simp add: create_environment.simps g)
  have 1: "fst (popen sys_no_spawn world_bash [''lint'', ''-''] STREAM_BOTH EnvNone None)
       = Inl AttributeError"
    by (simp add: popen.simps c split: prod.splits)
  have 2: "fst (communicate sys_no_spawn world_bash [''lint'', ''-''] ''x = 1'' STREAM_BOTH None)
       = Inl AttributeError"
    by (simp add: communicate_def popen.simps c split: prod.splits)
  have p: "create_environment sys_no_spawn world_plain
      = (Inr env_plain, world_plain\<lparr>environment_cache := Some env_plain\<rparr>)"
    by (rule create_environment_no_shell)
      (simp_all add: sys_no_spawn_def sys_lint_def world_plain_def)
  have s: "Popen sys_no_spawn [''lint'', ''-''] env_plain (cwd world_plain) = None"
    by (simp add: sys_no_spawn_def)
  have 3: "fst (popen sys_no_spawn world_plain [''lint'', ''-''] STREAM_BOTH EnvNone None)
      = Inr None"
    using popen_swallows_spawn_failure(1) [OF p, of "[''lint'', ''-'']" None] s by simp
  have 4: "fst (communicate sys_no_spawn world_plain [''lint'', ''-''] ''x = 1'' STREAM_BOTH None)
      = Inr []"
    using popen_swallows_spawn_failure(2) [OF p, of "[''lint'', ''-'']" None] s by simp
  show ?thesis
    using e 1 2 3 4 by (simp add: sys_no_spawn_def)
qed

section \<open>Temporary files and directories: results\<close>

lemma resolve_absolute: "startswith d ''/'' \<Longrightarrow> resolve c d = resolve c' d"
  by (simp add: resolve_def)

lemma beneath_refl: "beneath d d"
  by (simp add: beneath_def)

lemma beneath_trans: "beneath d p \<Longrightarrow> beneath p q \<Longrightarrow> beneath d q"
proof -
  assume a: "beneath d p" and b: "beneath p q"
  from a have l: "length d \<le> length p"
    by (metis beneath_def length_take min.cobounded1)
  from b have "take (length d) q = take (length d) (take (length p) q)"
    using l by (simp add: min_def)
  also have "\<dots> = take (length d) p" using b by (simp add: beneath_def)
  also have "\<dots> = d" using a by (simp add: beneath_def)
  finally show ?thesis by (simp add: beneath_def)
qed


lemma makedirs_bounds: "disk \<subseteq> makedirs sys qs disk \<and> makedirs sys qs disk \<subseteq> disk \<union> set qs"
  by (induction qs arbitrary: disk) (auto, blast+)

lemma mirror_frame:
  "cwd (snd (mirror sys d filename files w)) = cwd w
   \<and> remove_calls (snd (mirror sys d filename files w)) = remove_calls w
   \<and> environ (snd (mirror sys d filename files w)) = environ w
   \<and> environment_cache (snd (mirror sys d filename files w)) = environment_cache w
   \<and> paths w \<subseteq> paths (snd (mirror sys d filename files w))"
proof (induction files arbitrary: w)
  case Nil
  then show ?case by simp
next
  case (Cons f files)
  let ?w1 = "w\<lparr>paths := makedirs sys (lineage (resolve (cwd w) (path_join d (dirname f))))
                              (paths w)\<rparr>"
  let ?w2 = "?w1\<lparr>paths := insert (resolve (cwd w) (path_join d f)) (paths ?w1)\<rparr>"
  have m: "paths w \<subseteq> paths ?w1" "paths w \<subseteq> paths ?w2"
    using makedirs_bounds by (simp, fastforce)
  from Cons [of ?w2] m show ?case
    by (auto simp: Let_def)
qed


lemma rmtree_frame: "cwd (rmtree sys d w) = cwd w \<and> remove_calls (rmtree sys d w) = remove_calls w"
  by (simp add: rmtree_def)

lemma rmtree_clears:
  assumes "\<forall>p. beneath d p \<longrightarrow> \<not> undeletable sys p"
  shows "paths (rmtree sys d w) = {p \<in> paths w. \<not> beneath d p}"
  using assms beneath_trans by (auto simp: rmtree_def)



text \<open>
  The world \<open>tmpdir\<close> hands to \<open>shutil.rmtree\<close>: its disk is the one the copying left,
  and its working directory is the temporary directory exactly when \<open>os.chdir\<close> was
  reached and succeeded.
\<close>

lemma tmpdir_world:
  assumes "mkdtemp sys = Some d"
  shows "\<exists>w2. snd (tmpdir sys w cmd files filename code output_stream env)
                 = rmtree sys (resolve (cwd w2) d) w2
           \<and> paths w2 = paths (snd (mirror sys d (basename filename) files
                                      (w\<lparr>paths := insert (resolve (cwd w) d) (paths w)\<rparr>)))
           \<and> cwd w2 = (if fst (mirror sys d (basename filename) files
                                  (w\<lparr>paths := insert (resolve (cwd w) d) (paths w)\<rparr>)) = None
                            \<and> chdir_ok sys (resolve (cwd w) d)
                         then resolve (cwd w) d else cwd w)
           \<and> (\<forall>out. fst (tmpdir sys w cmd files filename code output_stream env) = Inr out
                 \<longrightarrow> cwd w2 = resolve (cwd w) d)"
proof -
  let ?w1 = "w\<lparr>paths := insert (resolve (cwd w) d) (paths w)\<rparr>"
  obtain m wm where m: "mirror sys d (basename filename) files ?w1 = (m, wm)"
    by (cases "mirror sys d (basename filename) files ?w1")
  have fm: "cwd wm = cwd w"
    using mirror_frame [of sys d "basename filename" files ?w1] m by simp
  let ?wc = "wm\<lparr>cwd := resolve (cwd w) d\<rparr>"
  obtain r wp where p: "popen sys ?wc cmd output_stream EnvNone env = (r, wp)"
    by (cases "popen sys ?wc cmd output_stream EnvNone env")
  have "same_disk ?wc wp"
    using popen_disk [of ?wc sys cmd output_stream EnvNone env] p by simp
  then have fp: "paths wp = paths wm" "cwd wp = resolve (cwd w) d"
    by (simp_all add: same_disk_def)
  show ?thesis
  proof (cases m)
    case (Some ex)
    with assms m fm show ?thesis
      by (intro exI [of _ wm]) (simp add: tmpdir_def Let_def)
  next
    case None
    show ?thesis
    proof (cases "chdir_ok sys (resolve (cwd w) d)")
      case False
      with assms m fm None show ?thesis
        by (intro exI [of _ wm]) (simp add: tmpdir_def Let_def)
    next
      case True
      with assms m fm None p fp show ?thesis
        by (intro exI [of _ wp])
          (simp add: tmpdir_def Let_def split: sum.splits option.splits)
    qed
  qed
qed

lemma tmpdir_paths:
  assumes "mkdtemp sys = Some d" "startswith d ''/''"
    and "\<forall>p. beneath (resolve (cwd w) d) p \<longrightarrow> \<not> undeletable sys p"
  shows "paths (snd (tmpdir sys w cmd files filename code output_stream env))
           = {p \<in> paths (snd (mirror sys d (basename filename) files
                                 (w\<lparr>paths := insert (resolve (cwd w) d) (paths w)\<rparr>))).
                \<not> beneath (resolve (cwd w) d) p}"
proof -
  from tmpdir_world [OF assms(1), of w cmd files filename code output_stream env]
  obtain w2 where
    w2: "snd (tmpdir sys w cmd files filename code output_stream env)
           = rmtree sys (resolve (cwd w2) d) w2"
    and pw: "paths w2 = paths (snd (mirror sys d (basename filename) files
                                 (w\<lparr>paths := insert (resolve (cwd w) d) (paths w)\<rparr>)))"
    by auto
  have r: "resolve (cwd w2) d = resolve (cwd w) d"
    using assms(2) by (rule resolve_absolute)
  show ?thesis
    unfolding w2 r pw [symmetric] using assms(3) by (rule rmtree_clears)
qed

lemma tmpdir_cwd:
  assumes "mkdtemp sys = Some d"
  shows "cwd (snd (tmpdir sys w cmd files filename code output_stream env))
           = (if fst (mirror sys d (basename filename) files
                        (w\<lparr>paths := insert (resolve (cwd w) d) (paths w)\<rparr>)) = None
                  \<and> chdir_ok sys (resolve (cwd w) d)
               then resolve (cwd w) d else cwd w)"
    and "fst (tmpdir sys w cmd files filename code output_stream env) = Inr out \<Longrightarrow>
         cwd (snd (tmpdir sys w cmd files filename code output_stream env)) = resolve (cwd w) d"
proof -
  from tmpdir_world [OF assms(1), of w cmd files filename code output_stream env]
  obtain w2 where
    w2: "snd (tmpdir sys w cmd files filename code output_stream env)
           = rmtree sys (resolve (cwd w2) d) w2"
    and c: "cwd w2 = (if fst (mirror sys d (basename filename) files
                                  (w\<lparr>paths := insert (resolve (cwd w) d) (paths w)\<rparr>)) = None
                            \<and> chdir_ok sys (resolve (cwd w) d)
                         then resolve (cwd w) d else cwd w)"
    and o: "\<forall>out. fst (tmpdir sys w cmd files filename code output_stream env) = Inr out
                 \<longrightarrow> cwd w2 = resolve (cwd w) d"
    by auto
  show "cwd (snd (tmpdir sys w cmd files filename code output_stream env))
           = (if fst (mirror sys d (basename filename) files
                        (w\<lparr>paths := insert (resolve (cwd w) d) (paths w)\<rparr>)) = None
                  \<and> chdir_ok sys (resolve (cwd w) d)
               then resolve (cwd w) d else cwd w)"
    unfolding w2 using c by (simp only: rmtree_frame)
  show "fst (tmpdir sys w cmd files filename code output_stream env) = Inr out \<Longrightarrow>
         cwd (snd (tmpdir sys w cmd files filename code output_stream env)) = resolve (cwd w) d"
    using o by (simp add: w2 rmtree_frame)
qed




text \<open>
  What \<open>tmpdir\<close> returns or raises, by the stage it reaches: the copy loop, \<open>os.chdir\<close>,
  the start of the command, its output, and the decoding of that output.
\<close>

lemma tmpdir_result:
  assumes "mkdtemp sys = Some d"
  shows "fst (tmpdir sys w cmd files filename code output_stream env) =
     (case fst (mirror sys d (basename filename) files
                  (w\<lparr>paths := insert (resolve (cwd w) d) (paths w)\<rparr>)) of
        Some ex \<Rightarrow> Inl ex
      | None \<Rightarrow>
          if \<not> chdir_ok sys (resolve (cwd w) d) then Inl OSError
          else
            (case fst (popen sys
                         ((snd (mirror sys d (basename filename) files
                                  (w\<lparr>paths := insert (resolve (cwd w) d) (paths w)\<rparr>)))
                            \<lparr>cwd := resolve (cwd w) d\<rparr>)
                         cmd output_stream EnvNone env) of
               Inl ex \<Rightarrow> Inl ex
             | Inr None \<Rightarrow> Inr []
             | Inr (Some proc) \<Rightarrow>
                 (case communicate_proc proc [] of
                    Inl ex \<Rightarrow> Inl ex
                  | Inr out \<Rightarrow>
                      (case combine_output out [CHR 0x0A] of
                         Inl ex \<Rightarrow> Inl ex
                       | Inr text \<Rightarrow>
                           Inr (join [CHR 0x0A]
                                  (filter_lines (basename filename)
                                     (split [CHR 0x0A] text)))))))"
proof -
  let ?w1 = "w\<lparr>paths := insert (resolve (cwd w) d) (paths w)\<rparr>"
  obtain m wm where m: "mirror sys d (basename filename) files ?w1 = (m, wm)"
    by (cases "mirror sys d (basename filename) files ?w1")
  have fm: "cwd wm = cwd w"
    using mirror_frame [of sys d "basename filename" files ?w1] m by simp
  let ?wc = "wm\<lparr>cwd := resolve (cwd w) d\<rparr>"
  obtain r wp where p: "popen sys ?wc cmd output_stream EnvNone env = (r, wp)"
    by (cases "popen sys ?wc cmd output_stream EnvNone env")
  show ?thesis
    using assms m fm p
    by (simp add: tmpdir_def Let_def split: sum.splits option.splits)
qed

lemma startswith_iff: "startswith s p \<longleftrightarrow> (\<exists>t. s = p @ t)"
  by (induction s p rule: startswith.induct) auto

lemma contains_iff: "contains s sub \<longleftrightarrow> (\<exists>pre post. s = pre @ sub @ post)"
proof (induction s)
  case Nil
  then show ?case by auto
next
  case (Cons c cs)
  show ?case
  proof
    assume "contains (c # cs) sub"
    then consider "startswith (c # cs) sub" | "contains cs sub" by auto
    then show "\<exists>pre post. c # cs = pre @ sub @ post"
    proof cases
      case 1
      then obtain t where "c # cs = sub @ t" by (auto simp: startswith_iff)
      then have "c # cs = [] @ sub @ t" by simp
      then show ?thesis by blast
    next
      case 2
      with Cons obtain pre post where "cs = pre @ sub @ post" by blast
      then have "c # cs = (c # pre) @ sub @ post" by simp
      then show ?thesis by blast
    qed
  next
    assume "\<exists>pre post. c # cs = pre @ sub @ post"
    then obtain pre post where e: "c # cs = pre @ sub @ post" by blast
    show "contains (c # cs) sub"
    proof (cases pre)
      case Nil
      with e have "startswith (c # cs) sub" by (auto simp: startswith_iff)
      then show ?thesis by simp
    next
      case (Cons a pre')
      with e have "cs = pre' @ sub @ post" by simp
      with Cons.IH have "contains cs sub" by blast
      then show ?thesis by simp
    qed
  qed
qed

lemma find_sep_char:
  "find_sep [c] s =
     (if c \<in> set s then Some (takeWhile (\<lambda>x. x \<noteq> c) s, tl (dropWhile (\<lambda>x. x \<noteq> c) s))
      else None)"
  by (induction s) auto

lemma split_max_first: "split_max [c] (Suc n) s ! 0 = takeWhile (\<lambda>x. x \<noteq> c) s"
proof (cases "c \<in> set s")
  case True
  then show ?thesis by (simp add: find_sep_char)
next
  case False
  then have t: "takeWhile (\<lambda>x. x \<noteq> c) s = s" by auto
  show ?thesis by (simp add: find_sep_char False t)
qed

lemma filter_lines_eq:
  "filter_lines filename lines =
     filter (\<lambda>line. \<exists>pre post. takeWhile (\<lambda>c. c \<noteq> CHR '':'') line = pre @ filename @ post) lines"
proof -
  have "split_max '':'' 1 line ! 0 = takeWhile (\<lambda>c. c \<noteq> CHR '':'') line" for line
    using split_max_first [of "CHR '':''" 0 line] by simp
  then show ?thesis
    by (simp add: filter_lines_def contains_iff)
qed

lemma mirror_environment:
  "environment_cache (snd (mirror sys d filename files w)) = environment_cache w"
  "environ (snd (mirror sys d filename files w)) = environ w"
  using mirror_frame [of sys d filename files w] by simp_all

lemma mirror_lint:
  "fst (mirror sys_lint ''/tmp/tmpdir'' ''a.py'' [''a.py'', ''b.py'']
          (world_plain\<lparr>paths := insert [''tmp'', ''tmpdir''] (paths world_plain)\<rparr>)) = None"
  by code_simp

lemma popen_lint:
  assumes "environment_cache w = None" "environ w = [''PATH'' \<mapsto> ''/usr/bin'']"
  shows "fst (popen sys_lint (w\<lparr>cwd := dir\<rparr>) cmd STREAM_BOTH EnvNone None)
     = Inr (Some \<lparr>child_of =
                    \<lparr>answer = (\<lambda>input. Inr (Utf8 ''a.py:1: error'', Utf8 ''b.py:2: error'')),
                     in_time = True\<rparr>,
                  stdout_piped = True, stderr_piped = True\<rparr>)"
proof -
  have c: "create_environment sys_lint (w\<lparr>cwd := dir\<rparr>)
      = (Inr env_plain, w\<lparr>cwd := dir, environment_cache := Some env_plain\<rparr>)"
    using assms by (intro create_environment_no_shell) (simp_all add: sys_lint_def)
  show ?thesis
    unfolding popen_default_env [OF c]
    by (simp add: sys_lint_def STREAM_BOTH_def STREAM_STDOUT_def STREAM_STDERR_def)
qed

text \<open>
  C9. The filter of \<open>tmpdir\<close> keeps exactly the lines in which the file name occurs
  before the first colon (in the whole line when it has no colon), in their order; of the
  lines \<open>a.py:1: error\<close> and \<open>b.py:2: error\<close> with the name \<open>a.py\<close> it keeps the
  first only. \<open>tmpdir\<close> applies it to the output of the very process it started: when
  the files were mirrored, the temporary directory was entered, the command was started
  there, and the output it wrote decodes to a text, \<open>tmpdir\<close> returns the lines of that
  text that name the base name of the target file before their first colon, joined by
  newlines. Conversely, a value \<open>tmpdir\<close> returns is the empty string of a command that
  could not be started, or those lines of the output of the process it started.
\<close>

theorem tmpdir_output_filter:
  "filter_lines filename lines =
     filter (\<lambda>line. \<exists>pre post. takeWhile (\<lambda>c. c \<noteq> CHR '':'') line = pre @ filename @ post) lines
   \<and> filter_lines ''a.py'' [''a.py:1: error'', ''b.py:2: error''] = [''a.py:1: error'']
   \<and> (mkdtemp sys = Some d
        \<and> fst (mirror sys d (basename target) files
                 (w\<lparr>paths := insert (resolve (cwd w) d) (paths w)\<rparr>)) = None
        \<and> chdir_ok sys (resolve (cwd w) d)
        \<and> fst (popen sys
                 ((snd (mirror sys d (basename target) files
                          (w\<lparr>paths := insert (resolve (cwd w) d) (paths w)\<rparr>)))
                    \<lparr>cwd := resolve (cwd w) d\<rparr>)
                 cmd output_stream EnvNone env) = Inr (Some proc)
        \<and> communicate_proc proc [] = Inr out
        \<and> combine_output out [CHR 0x0A] = Inr text \<longrightarrow>
      fst (tmpdir sys w cmd files target code output_stream env)
        = Inr (join [CHR 0x0A]
                 (filter (\<lambda>line. \<exists>pre post.
                             takeWhile (\<lambda>c. c \<noteq> CHR '':'') line = pre @ basename target @ post)
                    (split [CHR 0x0A] text))))
   \<and> (mkdtemp sys = Some d
        \<and> fst (tmpdir sys w cmd files target code output_stream env) = Inr res \<longrightarrow>
      fst (mirror sys d (basename target) files
             (w\<lparr>paths := insert (resolve (cwd w) d) (paths w)\<rparr>)) = None
      \<and> chdir_ok sys (resolve (cwd w) d)
      \<and> (fst (popen sys
                 ((snd (mirror sys d (basename target) files
                          (w\<lparr>paths := insert (resolve (cwd w) d) (paths w)\<rparr>)))
                    \<lparr>cwd := resolve (cwd w) d\<rparr>)
                 cmd output_stream EnvNone env) = Inr None
           \<and> res = []
         \<or> (\<exists>p outp t.
               fst (popen sys
                      ((snd (mirror sys d (basename target) files
                               (w\<lparr>paths := insert (resolve (cwd w) d) (paths w)\<rparr>)))
                         \<lparr>cwd := resolve (cwd w) d\<rparr>)
                      cmd output_stream EnvNone env) = Inr (Some p)
               \<and> communicate_proc p [] = Inr outp
               \<and> combine_output outp [CHR 0x0A] = Inr t
               \<and> res = join [CHR 0x0A]
                         (filter (\<lambda>line. \<exists>pre post.
                                     takeWhile (\<lambda>c. c \<noteq> CHR '':'') line
                                       = pre @ basename target @ post)
                            (split [CHR 0x0A] t)))))"
proof (intro conjI impI)
  show "filter_lines filename lines =
     filter (\<lambda>line. \<exists>pre post. takeWhile (\<lambda>c. c \<noteq> CHR '':'') line = pre @ filename @ post) lines"
    by (rule filter_lines_eq)
  show "filter_lines ''a.py'' [''a.py:1: error'', ''b.py:2: error''] = [''a.py:1: error'']"
    by code_simp
next
  assume a: "mkdtemp sys = Some d
        \<and> fst (mirror sys d (basename target) files
                 (w\<lparr>paths := insert (resolve (cwd w) d) (paths w)\<rparr>)) = None
        \<and> chdir_ok sys (resolve (cwd w) d)
        \<and> fst (popen sys
                 ((snd (mirror sys d (basename target) files
                          (w\<lparr>paths := insert (resolve (cwd w) d) (paths w)\<rparr>)))
                    \<lparr>cwd := resolve (cwd w) d\<rparr>)
                 cmd output_stream EnvNone env) = Inr (Some proc)
        \<and> communicate_proc proc [] = Inr out
        \<and> combine_output out [CHR 0x0A] = Inr text"
  then have m: "mkdtemp sys = Some d" by simp
  show "fst (tmpdir sys w cmd files target code output_stream env)
        = Inr (join [CHR 0x0A]
                 (filter (\<lambda>line. \<exists>pre post.
                             takeWhile (\<lambda>c. c \<noteq> CHR '':'') line = pre @ basename target @ post)
                    (split [CHR 0x0A] text)))"
    unfolding tmpdir_result [OF m] filter_lines_eq [symmetric] using a by simp
next
  assume a: "mkdtemp sys = Some d
        \<and> fst (tmpdir sys w cmd files target code output_stream env) = Inr res"
  then have m: "mkdtemp sys = Some d" by simp
  from a have r: "fst (tmpdir sys w cmd files target code output_stream env) = Inr res"
    by simp
  from r show "fst (mirror sys d (basename target) files
             (w\<lparr>paths := insert (resolve (cwd w) d) (paths w)\<rparr>)) = None"
    unfolding tmpdir_result [OF m] by (simp split: option.splits)
  from r show "chdir_ok sys (resolve (cwd w) d)"
    unfolding tmpdir_result [OF m] by (simp split: option.splits if_splits)
  from r show "fst (popen sys
                 ((snd (mirror sys d (basename target) files
                          (w\<lparr>paths := insert (resolve (cwd w) d) (paths w)\<rparr>)))
                    \<lparr>cwd := resolve (cwd w) d\<rparr>)
                 cmd output_stream EnvNone env) = Inr None
           \<and> res = []
         \<or> (\<exists>p outp t.
               fst (popen sys
                      ((snd (mirror sys d (basename target) files
                               (w\<lparr>paths := insert (resolve (cwd w) d) (paths w)\<rparr>)))
                         \<lparr>cwd := resolve (cwd w) d\<rparr>)
                      cmd output_stream EnvNone env) = Inr (Some p)
               \<and> communicate_proc p [] = Inr outp
               \<and> combine_output outp [CHR 0x0A] = Inr t
               \<and> res = join [CHR 0x0A]
                         (filter (\<lambda>line. \<exists>pre post.
                                     takeWhile (\<lambda>c. c \<noteq> CHR '':'') line
                                       = pre @ basename target @ post)
                            (split [CHR 0x0A] t)))"
    unfolding tmpdir_result [OF m] filter_lines_eq [symmetric]
    by (auto split: option.splits if_splits sum.splits)
qed

theorem tmpdir_output_filter_witness:
  "filter_lines ''a.py'' [''a.py:1: error'', ''b.py:2: error'', ''lib/a.py: note'', ''x: a.py'']
     = [''a.py:1: error'', ''lib/a.py: note'']
   \<and> mkdtemp sys_lint = Some ''/tmp/tmpdir''
   \<and> basename ''src/a.py'' = ''a.py''
   \<and> fst (mirror sys_lint ''/tmp/tmpdir'' ''a.py'' [''a.py'', ''b.py'']
            (world_plain\<lparr>paths := insert [''tmp'', ''tmpdir''] (paths world_plain)\<rparr>)) = None
   \<and> fst (popen sys_lint
            ((snd (mirror sys_lint ''/tmp/tmpdir'' ''a.py'' [''a.py'', ''b.py'']
                     (world_plain\<lparr>paths := insert [''tmp'', ''tmpdir''] (paths world_plain)\<rparr>)))
               \<lparr>cwd := [''tmp'', ''tmpdir'']\<rparr>)
            [''lint''] STREAM_BOTH EnvNone None)
       = Inr (Some \<lparr>child_of =
                      \<lparr>answer = (\<lambda>input. Inr (Utf8 ''a.py:1: error'', Utf8 ''b.py:2: error'')),
                       in_time = True\<rparr>,
                    stdout_piped = True, stderr_piped = True\<rparr>)
   \<and> combine_output (Some (Utf8 ''a.py:1: error''), Some (Utf8 ''b.py:2: error'')) [CHR 0x0A]
       = Inr (''a.py:1: error'' @ [CHR 0x0A] @ ''b.py:2: error'')
   \<and> fst (tmpdir sys_lint world_plain [''lint''] [''a.py'', ''b.py''] ''src/a.py'' ''x = 1''
           STREAM_BOTH None)
     = Inr ''a.py:1: error''"
proof -
  let ?proc = "\<lparr>child_of =
                  \<lparr>answer = (\<lambda>input. Inr (Utf8 ''a.py:1: error'', Utf8 ''b.py:2: error'')),
                   in_time = True\<rparr>,
                stdout_piped = True, stderr_piped = True\<rparr>"
  let ?out = "(Some (Utf8 ''a.py:1: error''), Some (Utf8 ''b.py:2: error''))"
  let ?text = "''a.py:1: error'' @ [CHR 0x0A] @ ''b.py:2: error''"
  let ?wm = "snd (mirror sys_lint ''/tmp/tmpdir'' ''a.py'' [''a.py'', ''b.py'']
                    (world_plain\<lparr>paths := insert [''tmp'', ''tmpdir''] (paths world_plain)\<rparr>))"
  have f: "filter_lines ''a.py'' [''a.py:1: error'', ''b.py:2: error'', ''lib/a.py: note'', ''x: a.py'']
     = [''a.py:1: error'', ''lib/a.py: note'']"
    by code_simp
  have n: "mkdtemp sys_lint = Some ''/tmp/tmpdir''" "chdir_ok sys_lint [''tmp'', ''tmpdir'']"
    by (simp_all add: sys_lint_def)
  have b: "basename ''src/a.py'' = ''a.py''"
    and r: "resolve (cwd world_plain) ''/tmp/tmpdir'' = [''tmp'', ''tmpdir'']"
    by code_simp+
  have e: "environment_cache ?wm = None" "environ ?wm = [''PATH'' \<mapsto> ''/usr/bin'']"
    unfolding mirror_environment by (simp_all add: world_plain_def)
  have p: "fst (popen sys_lint (?wm\<lparr>cwd := [''tmp'', ''tmpdir'']\<rparr>)
                  [''lint''] STREAM_BOTH EnvNone None) = Inr (Some ?proc)"
    by (rule popen_lint) (rule e)+
  have c: "communicate_proc ?proc [] = Inr ?out"
    by (simp add: communicate_proc_def)
  have o: "combine_output ?out [CHR 0x0A] = Inr ?text"
    by code_simp
  have j: "join [CHR 0x0A] (filter_lines ''a.py'' (split [CHR 0x0A] ?text)) = ''a.py:1: error''"
    by code_simp
  have "fst (tmpdir sys_lint world_plain [''lint''] [''a.py'', ''b.py''] ''src/a.py'' ''x = 1''
           STREAM_BOTH None)
     = Inr (join [CHR 0x0A]
              (filter (\<lambda>line. \<exists>pre post.
                          takeWhile (\<lambda>c. c \<noteq> CHR '':'') line = pre @ ''a.py'' @ post)
                 (split [CHR 0x0A] ?text)))"
    using tmpdir_output_filter
        [of "''a.py''" "[''a.py:1: error'', ''b.py:2: error'', ''lib/a.py: note'', ''x: a.py'']"
            sys_lint "''/tmp/tmpdir''" "''src/a.py''" "[''a.py'', ''b.py'']" world_plain
            "[''lint'']" STREAM_BOTH None ?proc ?out ?text "''x = 1''" "''a.py:1: error''"]
      n b r mirror_lint p c o
    by simp
  also have "\<dots> = Inr (join [CHR 0x0A] (filter_lines ''a.py'' (split [CHR 0x0A] ?text)))"
    by (simp only: filter_lines_eq)
  finally have t: "fst (tmpdir sys_lint world_plain [''lint''] [''a.py'', ''b.py''] ''src/a.py''
                     ''x = 1'' STREAM_BOTH None) = Inr ''a.py:1: error''"
    by (simp only: j)
  from f n b mirror_lint p o t show ?thesis by simp
qed

lemma create_environment_moved:
  assumes "environment_cache w = None" "environ w = [''PATH'' \<mapsto> ''/usr/bin'']"
    and "os_name sys = ''posix''" "pandoc_path sys = None"
  shows "fst (create_environment sys (w\<lparr>cwd := dir\<rparr>)) = Inr env_plain"
  using create_environment_no_shell [of "w\<lparr>cwd := dir\<rparr>" sys] assms by simp

text \<open>The child \<open>popen\<close> starts is the one the operating system gives for the working
  directory of the moment.\<close>

lemma popen_started:
  assumes "fst (create_environment sys w) = Inr e"
  shows "fst (popen sys w cmd output_stream EnvNone extra_env) =
     Inr (map_option
            (\<lambda>c. \<lparr>child_of = c,
                  stdout_piped = (output_stream = STREAM_BOTH \<or> output_stream = STREAM_STDOUT),
                  stderr_piped = (output_stream \<noteq> STREAM_STDOUT)\<rparr>)
            (Popen sys cmd (case extra_env of None \<Rightarrow> e | Some x \<Rightarrow> e ++ x) (cwd w)))"
proof -
  obtain r w' where c: "create_environment sys w = (r, w')"
    by (cases "create_environment sys w")
  with assms have "create_environment sys w = (Inr e, w')" by simp
  then show ?thesis by (simp add: popen_default_env)
qed

text \<open>
  C10, as the code has it. \<open>tmpdir\<close> enters the temporary directory after the loop that
  writes and copies the files and before it starts the command, and never goes back.
  So the working directory at the end is the temporary directory exactly when the loop
  raised nothing and \<open>os.chdir\<close> succeeded, and the working directory of the call
  otherwise; in particular it is the temporary directory whenever \<open>tmpdir\<close> returns a
  value. The command is started in the temporary directory: what \<open>tmpdir\<close> returns is
  what the child started there yields (the empty string when no child could be started
  there). With the absolute name \<open>mkdtemp\<close> gives, the temporary directory has been
  removed at the end unless a removal at or below it was refused.
\<close>

theorem tmpdir_keeps_cwd:
  "let D = resolve (cwd w) d;
       mirrored = mirror sys d (basename filename) files (w\<lparr>paths := insert D (paths w)\<rparr>);
       entered = (fst mirrored = None \<and> chdir_ok sys D);
       result = tmpdir sys w cmd files filename code output_stream env
   in
   mkdtemp sys = Some d \<longrightarrow>
     cwd (snd result) = (if entered then D else cwd w)
     \<and> (fst result = Inr out \<longrightarrow> cwd (snd result) = D)
     \<and> (entered
          \<and> fst (create_environment sys ((snd mirrored)\<lparr>cwd := D\<rparr>)) = Inr e
          \<and> Popen sys cmd (case env of None \<Rightarrow> e | Some x \<Rightarrow> e ++ x) D = None \<longrightarrow>
        fst result = Inr [])
     \<and> (entered
          \<and> fst (create_environment sys ((snd mirrored)\<lparr>cwd := D\<rparr>)) = Inr e
          \<and> Popen sys cmd (case env of None \<Rightarrow> e | Some x \<Rightarrow> e ++ x) D = Some c
          \<and> answer c [] = Inr (so, se)
          \<and> combine_output
               (if output_stream = STREAM_BOTH \<or> output_stream = STREAM_STDOUT
                then Some so else None,
                if output_stream \<noteq> STREAM_STDOUT then Some se else None)
               [CHR 0x0A] = Inr text \<longrightarrow>
        fst result
          = Inr (join [CHR 0x0A] (filter_lines (basename filename) (split [CHR 0x0A] text))))
     \<and> (startswith d ''/'' \<and> (\<forall>p. beneath D p \<longrightarrow> \<not> undeletable sys p) \<longrightarrow>
        D \<notin> paths (snd result))"
  unfolding Let_def
proof (intro conjI impI)
  assume m: "mkdtemp sys = Some d"
  show "cwd (snd (tmpdir sys w cmd files filename code output_stream env))
      = (if fst (mirror sys d (basename filename) files
                   (w\<lparr>paths := insert (resolve (cwd w) d) (paths w)\<rparr>)) = None
             \<and> chdir_ok sys (resolve (cwd w) d)
          then resolve (cwd w) d else cwd w)"
    by (rule tmpdir_cwd(1) [OF m])
next
  assume m: "mkdtemp sys = Some d"
    and r: "fst (tmpdir sys w cmd files filename code output_stream env) = Inr out"
  show "cwd (snd (tmpdir sys w cmd files filename code output_stream env)) = resolve (cwd w) d"
    by (rule tmpdir_cwd(2) [OF m r])
next
  let ?wc = "(snd (mirror sys d (basename filename) files
                     (w\<lparr>paths := insert (resolve (cwd w) d) (paths w)\<rparr>)))
               \<lparr>cwd := resolve (cwd w) d\<rparr>"
  assume m: "mkdtemp sys = Some d"
    and a: "(fst (mirror sys d (basename filename) files
                   (w\<lparr>paths := insert (resolve (cwd w) d) (paths w)\<rparr>)) = None
             \<and> chdir_ok sys (resolve (cwd w) d))
          \<and> fst (create_environment sys ?wc) = Inr e
          \<and> Popen sys cmd (case env of None \<Rightarrow> e | Some x \<Rightarrow> e ++ x) (resolve (cwd w) d)
              = None"
  then have e: "fst (create_environment sys ?wc) = Inr e" by simp
  show "fst (tmpdir sys w cmd files filename code output_stream env) = Inr []"
    unfolding tmpdir_result [OF m] popen_started [OF e] using a by simp
next
  let ?wc = "(snd (mirror sys d (basename filename) files
                     (w\<lparr>paths := insert (resolve (cwd w) d) (paths w)\<rparr>)))
               \<lparr>cwd := resolve (cwd w) d\<rparr>"
  assume m: "mkdtemp sys = Some d"
    and a: "(fst (mirror sys d (basename filename) files
                   (w\<lparr>paths := insert (resolve (cwd w) d) (paths w)\<rparr>)) = None
             \<and> chdir_ok sys (resolve (cwd w) d))
          \<and> fst (create_environment sys ?wc) = Inr e
          \<and> Popen sys cmd (case env of None \<Rightarrow> e | Some x \<Rightarrow> e ++ x) (resolve (cwd w) d)
              = Some c
          \<and> answer c [] = Inr (so, se)
          \<and> combine_output
               (if output_stream = STREAM_BOTH \<or> output_stream = STREAM_STDOUT
                then Some so else None,
                if output_stream \<noteq> STREAM_STDOUT then Some se else None)
               [CHR 0x0A] = Inr text"
  then have e: "fst (create_environment sys ?wc) = Inr e" by simp
  show "fst (tmpdir sys w cmd files filename code output_stream env)
          = Inr (join [CHR 0x0A] (filter_lines (basename filename) (split [CHR 0x0A] text)))"
    unfolding tmpdir_result [OF m] popen_started [OF e] using a
    by (simp add: communicate_proc_def)
next
  assume m: "mkdtemp sys = Some d"
    and a: "startswith d ''/''
          \<and> (\<forall>p. beneath (resolve (cwd w) d) p \<longrightarrow> \<not> undeletable sys p)"
  then have s: "startswith d ''/''"
    and u: "\<forall>p. beneath (resolve (cwd w) d) p \<longrightarrow> \<not> undeletable sys p"
    by simp_all
  show "resolve (cwd w) d \<notin> paths (snd (tmpdir sys w cmd files filename code output_stream env))"
    unfolding tmpdir_paths [OF m s u] by (simp add: beneath_refl)
qed

theorem tmpdir_keeps_cwd_witness:
  "cwd world_plain = [''home'']
   \<and> mkdtemp sys_lint = Some ''/tmp/tmpdir''
   \<and> resolve (cwd world_plain) ''/tmp/tmpdir'' = [''tmp'', ''tmpdir'']
   \<and> Popen sys_lint [''lint''] env_plain [''tmp'', ''tmpdir'']
       = Some \<lparr>answer = (\<lambda>input. Inr (Utf8 ''a.py:1: error'', Utf8 ''b.py:2: error'')),
               in_time = True\<rparr>
   \<and> fst (tmpdir sys_lint world_plain [''lint''] [''a.py''] ''a.py'' ''x = 1''
             STREAM_STDOUT None) = Inr ''a.py:1: error''
   \<and> cwd (snd (tmpdir sys_lint world_plain [''lint''] [''a.py''] ''a.py'' ''x = 1''
                  STREAM_STDOUT None)) = [''tmp'', ''tmpdir'']
   \<and> [''tmp'', ''tmpdir'']
        \<notin> paths (snd (tmpdir sys_lint world_plain [''lint''] [''a.py''] ''a.py'' ''x = 1''
                          STREAM_STDOUT None))
   \<and> Popen sys_no_spawn [''lint''] env_plain [''tmp'', ''tmpdir''] = None
   \<and> fst (tmpdir sys_no_spawn world_plain [''lint''] [''a.py''] ''a.py'' ''x = 1''
             STREAM_STDOUT None) = Inr []
   \<and> cwd (snd (tmpdir sys_no_spawn world_plain [''lint''] [''a.py''] ''a.py'' ''x = 1''
                  STREAM_STDOUT None)) = [''tmp'', ''tmpdir'']"
proof -
  let ?c = "\<lparr>answer = (\<lambda>input. Inr (Utf8 ''a.py:1: error'', Utf8 ''b.py:2: error'')),
             in_time = True\<rparr>"
  let ?text = "''a.py:1: error'' @ [CHR 0x0A]"
  let ?w1 = "world_plain\<lparr>paths := insert [''tmp'', ''tmpdir''] (paths world_plain)\<rparr>"
  have n: "mkdtemp sys_lint = Some ''/tmp/tmpdir''" "chdir_ok sys_lint [''tmp'', ''tmpdir'']"
    "mkdtemp sys_no_spawn = Some ''/tmp/tmpdir''" "chdir_ok sys_no_spawn [''tmp'', ''tmpdir'']"
    "\<And>p. \<not> undeletable sys_lint p" "cwd world_plain = [''home'']"
    "Popen sys_lint [''lint''] env_plain [''tmp'', ''tmpdir''] = Some ?c"
    "Popen sys_no_spawn [''lint''] env_plain [''tmp'', ''tmpdir''] = None"
    by (simp_all add: sys_lint_def sys_no_spawn_def world_plain_def)
  have r: "resolve [''home''] ''/tmp/tmpdir'' = [''tmp'', ''tmpdir'']"
    "startswith ''/tmp/tmpdir'' ''/''" "basename ''a.py'' = ''a.py''"
    by code_simp+
  have k: "fst (mirror sys_lint ''/tmp/tmpdir'' ''a.py'' [''a.py''] ?w1) = None"
    "fst (mirror sys_no_spawn ''/tmp/tmpdir'' ''a.py'' [''a.py''] ?w1) = None"
    by code_simp+
  have e: "environment_cache (snd (mirror sys_lint ''/tmp/tmpdir'' ''a.py'' [''a.py''] ?w1)) = None"
    "environ (snd (mirror sys_lint ''/tmp/tmpdir'' ''a.py'' [''a.py''] ?w1))
       = [''PATH'' \<mapsto> ''/usr/bin'']"
    "environment_cache (snd (mirror sys_no_spawn ''/tmp/tmpdir'' ''a.py'' [''a.py''] ?w1)) = None"
    "environ (snd (mirror sys_no_spawn ''/tmp/tmpdir'' ''a.py'' [''a.py''] ?w1))
       = [''PATH'' \<mapsto> ''/usr/bin'']"
    unfolding mirror_environment by (simp_all add: world_plain_def)
  have o: "os_name sys_lint = ''posix''" "pandoc_path sys_lint = None"
    "os_name sys_no_spawn = ''posix''" "pandoc_path sys_no_spawn = None"
    by (simp_all add: sys_lint_def sys_no_spawn_def)
  have ce: "fst (create_environment sys_lint
                  ((snd (mirror sys_lint ''/tmp/tmpdir'' ''a.py'' [''a.py''] ?w1))
                     \<lparr>cwd := [''tmp'', ''tmpdir'']\<rparr>)) = Inr env_plain"
    by (rule create_environment_moved [OF e(1) e(2) o(1) o(2)])
  have cn: "fst (create_environment sys_no_spawn
                  ((snd (mirror sys_no_spawn ''/tmp/tmpdir'' ''a.py'' [''a.py''] ?w1))
                     \<lparr>cwd := [''tmp'', ''tmpdir'']\<rparr>)) = Inr env_plain"
    by (rule create_environment_moved [OF e(3) e(4) o(3) o(4)])
  have co: "combine_output (Some (Utf8 ''a.py:1: error''), None) [CHR 0x0A] = Inr ?text"
    by code_simp
  have j: "join [CHR 0x0A] (filter_lines ''a.py'' (split [CHR 0x0A] ?text)) = ''a.py:1: error''"
    by code_simp
  have s: "STREAM_STDOUT \<noteq> STREAM_BOTH"
    by (simp add: STREAM_BOTH_def STREAM_STDOUT_def STREAM_STDERR_def)
  note t1 = tmpdir_keeps_cwd
      [of world_plain "''/tmp/tmpdir''" sys_lint "''a.py''" "[''a.py'']" "[''lint'']" "''x = 1''"
          STREAM_STDOUT None "''a.py:1: error''" env_plain ?c "Utf8 ''a.py:1: error''"
          "Utf8 ''b.py:2: error''" ?text]
  note t2 = tmpdir_keeps_cwd
      [of world_plain "''/tmp/tmpdir''" sys_no_spawn "''a.py''" "[''a.py'']" "[''lint'']"
          "''x = 1''" STREAM_STDOUT None "[]" env_plain ?c "Utf8 ''a.py:1: error''"
          "Utf8 ''b.py:2: error''" ?text]
  show ?thesis
    using t1 t2 n r k ce cn co j s
    by (simp add: Let_def)
qed

text \<open>
  C10 as stated fails, in two ways. Where a file of the list cannot be copied, the loop
  raises before \<open>os.chdir\<close> is reached, and \<open>tmpdir\<close> ends with the working directory
  it was called in. And where the operating system refuses to remove the temporary
  directory, \<open>tmpdir\<close> returns with the working directory set to a directory that is
  still on disk.
\<close>

theorem tmpdir_keeps_cwd_counterexample:
  "cwd world_plain = [''home'']
   \<and> resolve (cwd world_plain) ''/tmp/tmpdir'' = [''tmp'', ''tmpdir'']
   \<and> fst (tmpdir sys_no_copy world_plain [''lint''] [''a.py'', ''b.py''] ''a.py'' ''x = 1''
             STREAM_STDOUT None) = Inl OSError
   \<and> cwd (snd (tmpdir sys_no_copy world_plain [''lint''] [''a.py'', ''b.py''] ''a.py'' ''x = 1''
                  STREAM_STDOUT None)) = [''home'']
   \<and> fst (tmpdir sys_locked world_plain [''lint''] [''a.py''] ''a.py'' ''x = 1''
             STREAM_STDOUT None) = Inr ''a.py:1: error''
   \<and> cwd (snd (tmpdir sys_locked world_plain [''lint''] [''a.py''] ''a.py'' ''x = 1''
                  STREAM_STDOUT None)) = [''tmp'', ''tmpdir'']
   \<and> [''tmp'', ''tmpdir'']
        \<in> paths (snd (tmpdir sys_locked world_plain [''lint''] [''a.py''] ''a.py'' ''x = 1''
                         STREAM_STDOUT None))"
  by code_simp

end
